theory Spec2Isabelle
  imports Main "HOL-Library.Word" "HOL-Library.List_Lexorder"
begin

unbundle bit_operations_syntax

section \<open>Basic types of package tbtree\<close>

type_synonym byte = "8 word"
type_synonym u16 = "16 word"
type_synonym u32 = "32 word"
type_synonym u64 = "64 word"

text \<open>\<^verbatim>\<open>type PageID uint64\<close>.\<close>

type_synonym PageID = u64

text \<open>
  The error values of tbtree.go (\<^verbatim>\<open>var ( ErrActiveSnapshots = ... )\<close>), the package-level
  errors it refers to, the one anonymous \<^verbatim>\<open>fmt.Errorf\<close> of \<^verbatim>\<open>flushTreeLog\<close>, the errors of
  the environment (file system, appendable), and Go's run-time panics, which are
  results of the model like any other.
\<close>

datatype error =
    ErrActiveSnapshots
  | ErrCompactionInProgress
  | ErrStaleRootTimestamp
  | ErrInvalidTimestamp
  | ErrNoValidPageFound
  | ErrTreeLocked
  | ErrIllegalArguments
  | ErrWriteBufferFull
  | ErrPageFull
  | ErrKeyNotFound
  | ErrKeyRevisionNotFound
  | ErrNoSnapshotAvailable
  | ErrCorruptedTreeLog
  | ErrCorruptedEntry
  | ErrCorruptedPage
  | ErrInvalidPageID
  | ErrFlushNonMemPage
  | ErrAlreadyClosed
  | ErrEOF
  | ErrIO string
  | PanicNilDereference
  | PanicAssert string
  | PanicOutOfRange

section \<open>Constants that are not in tbtree.go\<close>

text \<open>
  Modelled from the spec: \<^verbatim>\<open>PageSize\<close>, \<^verbatim>\<open>ChecksumSize\<close> and \<^verbatim>\<open>CommitMagicSize\<close> are
  declared in files of the package that are not part of the sources at hand. The spec
  fixes them: a page is 4096 bytes, the checksum is a \<^verbatim>\<open>u32\<close>, the magic is two bytes.
\<close>

definition PageSize :: nat where
  "PageSize = 4096"

definition ChecksumSize :: nat where
  "ChecksumSize = 4"

definition CommitMagicSize :: nat where
  "CommitMagicSize = 2"

text \<open>
  Modelled from the spec: \<^verbatim>\<open>PageNone\<close>, \<^verbatim>\<open>OffsetNone\<close> and \<^verbatim>\<open>isMemPage\<close> are declared
  outside tbtree.go. The spec reserves one page id for "absent", one history offset for
  "no prior version", and the high bit of a page id for in-memory pages. No theorem
  below depends on the two numerals, only on \<open>PageNone\<close> not being an in-memory id.
\<close>

definition PageNone :: PageID where
  "PageNone = - 1"

definition OffsetNone :: u64 where
  "OffsetNone = - 1"

definition isMemPage :: "PageID \<Rightarrow> bool" where
  "isMemPage pgid \<longleftrightarrow> pgid \<noteq> PageNone \<and> bit pgid 63"

text \<open>\<^verbatim>\<open>const CommitEntrySize = 40 + CommitMagicSize\<close>\<close>

definition CommitEntrySize :: nat where
  "CommitEntrySize = 40 + CommitMagicSize"

text \<open>\<^verbatim>\<open>const MaxEntrySize = 2 * 1024\<close>\<close>

definition MaxEntrySize :: nat where
  "MaxEntrySize = 2 * 1024"

text \<open>\<^verbatim>\<open>HistoryLogFileName = "history"\<close>, \<^verbatim>\<open>TreeLogFileName = "tree"\<close>\<close>

definition HistoryLogFileName :: string where
  "HistoryLogFileName = ''history''"

definition TreeLogFileName :: string where
  "TreeLogFileName = ''tree''"

section \<open>encoding/binary and hash/crc32\<close>

text \<open>\<^verbatim>\<open>binary.BigEndian\<close>: the bytes of a value, most significant first.\<close>

definition be16 :: "u16 \<Rightarrow> byte list" where
  "be16 v = [ucast (drop_bit 8 v), ucast v]"

definition be32 :: "u32 \<Rightarrow> byte list" where
  "be32 v = [ucast (drop_bit 24 v), ucast (drop_bit 16 v), ucast (drop_bit 8 v), ucast v]"

definition be64 :: "u64 \<Rightarrow> byte list" where
  "be64 v = [ucast (drop_bit 56 v), ucast (drop_bit 48 v), ucast (drop_bit 40 v),
             ucast (drop_bit 32 v), ucast (drop_bit 24 v), ucast (drop_bit 16 v),
             ucast (drop_bit 8 v), ucast v]"

text \<open>
  \<^verbatim>\<open>binary.BigEndian.PutUintN(buf[off:], v)\<close> overwrites the bytes of \<open>buf\<close> from \<open>off\<close>.
  Go panics when fewer than N bytes remain; the callers below check the length first.
\<close>

definition PutUint16 :: "byte list \<Rightarrow> nat \<Rightarrow> u16 \<Rightarrow> byte list" where
  "PutUint16 buf off v = take off buf @ be16 v @ drop (off + 2) buf"

definition PutUint32 :: "byte list \<Rightarrow> nat \<Rightarrow> u32 \<Rightarrow> byte list" where
  "PutUint32 buf off v = take off buf @ be32 v @ drop (off + 4) buf"

definition PutUint64 :: "byte list \<Rightarrow> nat \<Rightarrow> u64 \<Rightarrow> byte list" where
  "PutUint64 buf off v = take off buf @ be64 v @ drop (off + 8) buf"

text \<open>\<^verbatim>\<open>binary.BigEndian.UintN(b)\<close> reads the first N bytes of \<open>b\<close>.\<close>

definition Uint16 :: "byte list \<Rightarrow> u16" where
  "Uint16 b = ucast (b ! 1) OR push_bit 8 (ucast (b ! 0))"

definition Uint32 :: "byte list \<Rightarrow> u32" where
  "Uint32 b = ucast (b ! 3) OR push_bit 8 (ucast (b ! 2)) OR push_bit 16 (ucast (b ! 1))
     OR push_bit 24 (ucast (b ! 0))"

definition Uint64 :: "byte list \<Rightarrow> u64" where
  "Uint64 b = ucast (b ! 7) OR push_bit 8 (ucast (b ! 6)) OR push_bit 16 (ucast (b ! 5))
     OR push_bit 24 (ucast (b ! 4)) OR push_bit 32 (ucast (b ! 3)) OR push_bit 40 (ucast (b ! 2))
     OR push_bit 48 (ucast (b ! 1)) OR push_bit 56 (ucast (b ! 0))"

text \<open>
  \<^verbatim>\<open>crc32.New(crc32.MakeTable(crc32.Castagnoli))\<close>, \<^verbatim>\<open>Write\<close>, \<^verbatim>\<open>Sum32\<close>: the reflected
  CRC-32C (polynomial \<open>0x82F63B78\<close>, initial value and final complement all ones),
  one bit at a time.
\<close>

definition crc32c_step :: "u32 \<Rightarrow> u32" where
  "crc32c_step c = (if bit c 0 then drop_bit 1 c XOR 0x82F63B78 else drop_bit 1 c)"

definition crc32c_byte :: "u32 \<Rightarrow> byte \<Rightarrow> u32" where
  "crc32c_byte c b = (crc32c_step ^^ 8) (c XOR ucast b)"

text \<open>\<^verbatim>\<open>func computeChecksum(data []byte) uint32\<close>\<close>

definition computeChecksum :: "byte list \<Rightarrow> u32" where
  "computeChecksum data = NOT (foldl crc32c_byte 0xFFFFFFFF data)"

text \<open>
  Modelled from the words of the spec, "CRC32-Castagnoli": the cyclic redundancy check
  of width 32 with the Castagnoli polynomial \<open>0x1EDC6F41\<close>, in its standard
  parametrisation. The register starts with all ones; the bits of the message are
  shifted in at the most significant end of the register, the bits of each byte least
  significant first (reflected input), and the polynomial is subtracted whenever the bit
  shifted out differs from the message bit; at the end the register is reversed bit by
  bit (reflected output) and complemented. This definition shares nothing with
  \<open>computeChecksum\<close>: it is what the checksum of the source is compared with.
\<close>

definition crc_shift_in :: "u32 \<Rightarrow> bool \<Rightarrow> u32" where
  "crc_shift_in r x =
     (if bit r 31 \<noteq> x then push_bit 1 r XOR 0x1EDC6F41 else push_bit 1 r)"

definition crc_shift_byte :: "u32 \<Rightarrow> byte \<Rightarrow> u32" where
  "crc_shift_byte r b = foldl crc_shift_in r (map (bit b) [0..<8])"

definition crc32_castagnoli :: "byte list \<Rightarrow> u32" where
  "crc32_castagnoli data = NOT (word_reverse (foldl crc_shift_byte 0xFFFFFFFF data))"

text \<open>The step of the reflected register with the message bit given apart: the link
  between the two in the proof that they agree.\<close>

definition crc32c_bit :: "u32 \<Rightarrow> bool \<Rightarrow> u32" where
  "crc32c_bit c x = (if bit c 0 \<noteq> x then drop_bit 1 c XOR 0x82F63B78 else drop_bit 1 c)"

section \<open>Append logs\<close>

text \<open>
  Modelled from the spec: the interface \<^verbatim>\<open>appendable.Appendable\<close> (package appendable is
  not part of the sources at hand). An append log is its logical content; the id of a
  byte is its offset. Every operation fails with \<open>ErrAlreadyClosed\<close> after \<^verbatim>\<open>Close\<close>; a
  read beyond the logical end is a short read (\<^verbatim>\<open>io.EOF\<close>); \<^verbatim>\<open>SetOffset\<close> truncates the
  logical size. Buffering and \<^verbatim>\<open>Sync\<close> affect durability only and are left out.
\<close>

record appendable =
  app_data :: "byte list"
  app_closed :: bool

definition app_Size :: "appendable \<Rightarrow> error + int" where
  "app_Size a = (if app_closed a then Inl ErrAlreadyClosed else Inr (int (length (app_data a))))"

definition app_Append :: "appendable \<Rightarrow> byte list \<Rightarrow> error + (int \<times> nat \<times> appendable)" where
  "app_Append a bs =
     (if app_closed a then Inl ErrAlreadyClosed
      else Inr (int (length (app_data a)), length bs, a\<lparr>app_data := app_data a @ bs\<rparr>))"

definition app_ReadAt :: "appendable \<Rightarrow> nat \<Rightarrow> int \<Rightarrow> error + byte list" where
  "app_ReadAt a n off =
     (if app_closed a then Inl ErrAlreadyClosed
      else if off < 0 then Inl ErrIllegalArguments
      else if length (app_data a) < nat off + n then Inl ErrEOF
      else Inr (take n (drop (nat off) (app_data a))))"

definition app_SetOffset :: "appendable \<Rightarrow> int \<Rightarrow> error + appendable" where
  "app_SetOffset a off =
     (if app_closed a then Inl ErrAlreadyClosed
      else if off < 0 \<or> int (length (app_data a)) < off then Inl ErrIllegalArguments
      else Inr (a\<lparr>app_data := take (nat off) (app_data a)\<rparr>))"

definition app_Flush :: "appendable \<Rightarrow> error option" where
  "app_Flush a = (if app_closed a then Some ErrAlreadyClosed else None)"

section \<open>Entries and pages\<close>

text \<open>
  Modelled from the spec: the types \<^verbatim>\<open>Entry\<close>, \<^verbatim>\<open>HistoryEntry\<close>, \<^verbatim>\<open>Page\<close> and
  \<^verbatim>\<open>HistoryPage\<close> and their methods are declared outside tbtree.go. The records follow
  the spec's data model: an entry is \<open>(key, value, ts, hOff, hC)\<close>; a leaf holds entries
  ordered by key; an inner page holds \<open>NumEntries\<close> separator keys and \<open>NumEntries + 1\<close>
  child ids, the left-most child at index 0; a history page holds the encoded history
  entries appended to it and the id of the next page of the chain.
\<close>

record Entry =
  Key :: "byte list"
  Value :: "byte list"
  eTs :: u64
  HOff :: u64
  HC :: u64

record HistoryEntry =
  PrevOffset :: u64
  hTs :: u64
  hValue :: "byte list"

record Page =
  IsLeaf :: bool
  IsRoot :: bool
  IsCopied :: bool
  NumEntries :: nat
  leafEntries :: "Entry list"
  innerKeys :: "byte list list"
  childIDs :: "PageID list"

record HistoryPage =
  hpData :: "byte list"
  NextPageID :: PageID

definition zeroEntry :: Entry where
  "zeroEntry = \<lparr>Key = [], Value = [], eTs = 0, HOff = 0, HC = 0\<rparr>"

definition newLeafPage :: Page where
  "newLeafPage = \<lparr>IsLeaf = True, IsRoot = False, IsCopied = False, NumEntries = 0,
                   leafEntries = [], innerKeys = [], childIDs = []\<rparr>"

definition newInnerPage :: Page where
  "newInnerPage = \<lparr>IsLeaf = False, IsRoot = False, IsCopied = False, NumEntries = 0,
                    leafEntries = [], innerKeys = [], childIDs = [PageNone]\<rparr>"

definition newHistoryPage :: HistoryPage where
  "newHistoryPage = \<lparr>hpData = [], NextPageID = PageNone\<rparr>"

text \<open>Modelled from the spec: \<^verbatim>\<open>ChildPageAt\<close>, \<^verbatim>\<open>SetPageID\<close>, \<^verbatim>\<open>SetAsRoot\<close>, \<^verbatim>\<open>firstKey\<close>,
  \<^verbatim>\<open>keyAt\<close>: the accessors of a page. An index outside the page is a panic.\<close>

definition ChildPageAt :: "Page \<Rightarrow> nat \<Rightarrow> error + PageID" where
  "ChildPageAt pg i = (if i < length (childIDs pg) then Inr (childIDs pg ! i) else Inl PanicOutOfRange)"

definition SetPageID :: "Page \<Rightarrow> nat \<Rightarrow> PageID \<Rightarrow> error + Page" where
  "SetPageID pg i pgid =
     (if i < length (childIDs pg) then Inr (pg\<lparr>childIDs := (childIDs pg)[i := pgid]\<rparr>)
      else Inl PanicOutOfRange)"

definition SetAsRoot :: "Page \<Rightarrow> Page" where
  "SetAsRoot pg = pg\<lparr>IsRoot := True\<rparr>"

definition firstKey :: "Page \<Rightarrow> error + byte list" where
  "firstKey pg = (case leafEntries pg of [] \<Rightarrow> Inl PanicOutOfRange | e # _ \<Rightarrow> Inr (Key e))"

definition keyAt :: "Page \<Rightarrow> nat \<Rightarrow> error + byte list" where
  "keyAt pg i = (if i < length (innerKeys pg) then Inr (innerKeys pg ! i) else Inl PanicOutOfRange)"

text \<open>Modelled from the spec: \<^verbatim>\<open>Remove\<close>, \<^verbatim>\<open>UpdateHistory\<close> and \<^verbatim>\<open>splitLeafPage\<close> of a leaf.
  Removing an absent key is \<open>ErrKeyNotFound\<close>; \<^verbatim>\<open>UpdateHistory\<close> records the offset of the
  archived version and counts it; a split moves the upper half to the new leaf.\<close>

definition Remove :: "Page \<Rightarrow> byte list \<Rightarrow> error + (Entry \<times> Page)" where
  "Remove pg k =
     (case find (\<lambda>x. Key x = k) (leafEntries pg) of
        None \<Rightarrow> Inl ErrKeyNotFound
      | Some prev \<Rightarrow>
          Inr (prev, pg\<lparr>leafEntries := filter (\<lambda>x. Key x \<noteq> k) (leafEntries pg),
                         NumEntries := NumEntries pg - 1\<rparr>))"

definition UpdateHistory :: "Page \<Rightarrow> byte list \<Rightarrow> u64 \<Rightarrow> Page" where
  "UpdateHistory pg k hoff =
     pg\<lparr>leafEntries := map (\<lambda>x. if Key x = k then x\<lparr>HOff := hoff, HC := HC x + 1\<rparr> else x)
                           (leafEntries pg)\<rparr>"

definition page_splitLeafPage :: "Page \<Rightarrow> Page \<Rightarrow> Entry \<Rightarrow> Page \<times> Page" where
  "page_splitLeafPage pg splitPage e =
     (let es = insort_key Key e (leafEntries pg);
          m = (length es + 1) div 2
      in (pg\<lparr>leafEntries := take m es, NumEntries := m\<rparr>,
          splitPage\<lparr>leafEntries := drop m es, NumEntries := length es - m\<rparr>))"

text \<open>Modelled from the spec: \<^verbatim>\<open>Find\<close> and \<^verbatim>\<open>splitInnerPage\<close> of an inner page. Child \<open>i\<close>
  holds the keys from separator \<open>i\<close> (inclusive) to separator \<open>i + 1\<close> (exclusive). A
  split lifts the middle separator out; it stays behind the last entry of the left
  page, where \<^verbatim>\<open>sepKey\<close> reads it with \<^verbatim>\<open>keyAt(NumEntries)\<close>.\<close>

definition Find :: "Page \<Rightarrow> byte list \<Rightarrow> error + (nat \<times> PageID)" where
  "Find pg k =
     (let idx = length (filter (\<lambda>s. s \<le> k) (take (NumEntries pg) (innerKeys pg)))
      in case ChildPageAt pg idx of Inl err \<Rightarrow> Inl err | Inr child \<Rightarrow> Inr (idx, child))"

definition splitInnerPage :: "Page \<Rightarrow> Page \<Rightarrow> byte list \<Rightarrow> PageID \<Rightarrow> PageID \<Rightarrow> Page \<times> Page" where
  "splitInnerPage pg newPage sepKey splitPageID newPageID =
     (let ks0 = take (NumEntries pg) (innerKeys pg);
          j = length (filter (\<lambda>s. s \<le> sepKey) ks0);
          ks = take j ks0 @ [sepKey] @ drop j ks0;
          cs = (take (j + 1) (childIDs pg))[j := newPageID] @ [splitPageID]
                 @ drop (j + 1) (childIDs pg);
          m = length ks div 2
      in (pg\<lparr>innerKeys := take (m + 1) ks, childIDs := take (m + 1) cs, NumEntries := m\<rparr>,
          newPage\<lparr>innerKeys := drop (m + 1) ks, childIDs := drop (m + 1) cs,
                  NumEntries := length ks - (m + 1)\<rparr>))"

text \<open>Modelled from the spec: a history entry is encoded as
  \<^verbatim>\<open>prevOffset:u64 | ts:u64 | valueLen:u16 | value\<close>; \<^verbatim>\<open>HistoryPage.Append\<close> returns the
  number of bytes it added, or \<open>ErrPageFull\<close> when the page cannot take them.\<close>

definition encodeHistoryEntry :: "HistoryEntry \<Rightarrow> byte list" where
  "encodeHistoryEntry he =
     be64 (PrevOffset he) @ be64 (hTs he) @ be16 (of_nat (length (hValue he))) @ hValue he"

definition hp_Append :: "HistoryPage \<Rightarrow> HistoryEntry \<Rightarrow> error + (nat \<times> HistoryPage)" where
  "hp_Append hp he =
     (let bs = encodeHistoryEntry he
      in if PageSize < length (hpData hp) + length bs then Inl ErrPageFull
         else Inr (length bs, hp\<lparr>hpData := hpData hp @ bs\<rparr>))"

section \<open>The write buffer\<close>

text \<open>
  Modelled from the spec: \<^verbatim>\<open>WriteBuffer\<close> is declared outside tbtree.go. It is the arena
  of in-memory pages of one tree: each page it hands out is addressed by an in-memory
  page id and is mutated in place by the writer. \<open>wb_max\<close> is the number of pages the
  tree's quota allows; \<^verbatim>\<open>Grow(n)\<close> says whether \<open>n\<close> more pages can be had.
\<close>

datatype mempage = MemPage Page | MemHistoryPage HistoryPage

record WriteBuffer =
  wb_slots :: "mempage list"
  wb_max :: nat

definition memPageID :: "nat \<Rightarrow> PageID" where
  "memPageID i = of_nat i OR push_bit 63 1"

definition memIndex :: "PageID \<Rightarrow> nat" where
  "memIndex pgid = unat (take_bit 63 pgid)"

definition wb_Grow :: "WriteBuffer \<Rightarrow> nat \<Rightarrow> bool" where
  "wb_Grow w n \<longleftrightarrow> length (wb_slots w) + n \<le> wb_max w"

definition wb_alloc :: "WriteBuffer \<Rightarrow> mempage \<Rightarrow> error + (PageID \<times> WriteBuffer)" where
  "wb_alloc w mp =
     (if length (wb_slots w) < wb_max w
      then Inr (memPageID (length (wb_slots w)), w\<lparr>wb_slots := wb_slots w @ [mp]\<rparr>)
      else Inl ErrWriteBufferFull)"

definition AllocLeafPage :: "WriteBuffer \<Rightarrow> error + (PageID \<times> WriteBuffer)" where
  "AllocLeafPage w = wb_alloc w (MemPage newLeafPage)"

definition AllocInnerPage :: "WriteBuffer \<Rightarrow> error + (PageID \<times> WriteBuffer)" where
  "AllocInnerPage w = wb_alloc w (MemPage newInnerPage)"

definition AllocHistoryPage :: "WriteBuffer \<Rightarrow> error + (PageID \<times> WriteBuffer)" where
  "AllocHistoryPage w = wb_alloc w (MemHistoryPage newHistoryPage)"

definition wb_Get :: "WriteBuffer \<Rightarrow> PageID \<Rightarrow> error + Page" where
  "wb_Get w pgid =
     (if isMemPage pgid \<and> memIndex pgid < length (wb_slots w)
      then (case wb_slots w ! memIndex pgid of
              MemPage pg \<Rightarrow> Inr pg
            | MemHistoryPage _ \<Rightarrow> Inl ErrInvalidPageID)
      else Inl ErrInvalidPageID)"

definition wb_GetHistoryPage :: "WriteBuffer \<Rightarrow> PageID \<Rightarrow> error + HistoryPage" where
  "wb_GetHistoryPage w pgid =
     (if isMemPage pgid \<and> memIndex pgid < length (wb_slots w)
      then (case wb_slots w ! memIndex pgid of
              MemHistoryPage hp \<Rightarrow> Inr hp
            | MemPage _ \<Rightarrow> Inl ErrInvalidPageID)
      else Inl ErrInvalidPageID)"

text \<open>A write through the pointer that \<^verbatim>\<open>Get\<close>, \<^verbatim>\<open>GetOrDup\<close> or an \<^verbatim>\<open>Alloc\<close> returned.\<close>

definition wb_store :: "WriteBuffer \<Rightarrow> PageID \<Rightarrow> mempage \<Rightarrow> WriteBuffer" where
  "wb_store w pgid mp = w\<lparr>wb_slots := (wb_slots w)[memIndex pgid := mp]\<rparr>"

definition wb_Reset :: "WriteBuffer \<Rightarrow> WriteBuffer" where
  "wb_Reset w = w\<lparr>wb_slots := []\<rparr>"

section \<open>Options, the tree, snapshots\<close>

text \<open>\<^verbatim>\<open>os.DirEntry\<close>, as far as \<^verbatim>\<open>recoverLatestValidTreeSnapshot\<close> looks at it.\<close>

record DirEntry =
  Name :: string
  IsDir :: bool

text \<open>
  \<^verbatim>\<open>type Options struct\<close> (declared outside tbtree.go), with the fields that \<^verbatim>\<open>Open\<close> and
  \<^verbatim>\<open>OpenWith\<close> read. \<^verbatim>\<open>readDir\<close>, \<^verbatim>\<open>appFactory\<close> and \<^verbatim>\<open>appRemove\<close> are the caller's
  functions (\<^verbatim>\<open>ReadDirFunc\<close>, \<^verbatim>\<open>AppFactoryFunc\<close>, \<^verbatim>\<open>AppRemoveFunc\<close>).
\<close>

record Options =
  opt_readOnly :: bool
  opt_maxActiveSnapshots :: nat
  opt_syncThld :: nat
  opt_wb :: WriteBuffer
  opt_readDir :: "string \<Rightarrow> error + DirEntry list"
  opt_appFactory :: "string \<Rightarrow> string \<Rightarrow> error + appendable"
  opt_appRemove :: "string \<Rightarrow> string \<Rightarrow> error option"

text \<open>
  \<^verbatim>\<open>type TBTree struct\<close>, with the fields the functions below read or write. The
  atomics are plain fields: the model is sequential. \<open>mtx_held\<close> says that another
  goroutine holds \<^verbatim>\<open>mtx\<close> at the moment of a \<^verbatim>\<open>TryLock\<close>; a function that takes the
  lock releases it before it returns, so it leaves the field as it found it. A
  blocking \<^verbatim>\<open>Lock\<close> waits, and the model describes the call from the moment it holds
  the lock. The page buffer is a cache of pages of the tree log, which are never
  rewritten, so a read through it is a read of the log.
\<close>

record TBTree =
  path :: string
  mtx_held :: bool
  mutated :: bool
  wb :: WriteBuffer
  rootID :: PageID
  lastSnapshotID :: PageID
  rootTs :: u64
  lastSnapshotTs :: u64
  indexedEntryCount :: u32
  headHistoryPageID :: PageID
  tailHistoryPageID :: PageID
  bufferedHistoryData :: u64
  treeApp :: appendable
  historyApp :: appendable
  numPages :: u64
  stalePages :: u32
  nSplits :: nat
  depth :: nat
  snapshotCount :: u64
  maxActiveSnapshots :: nat
  syncThld :: nat
  unsyncedBytes :: u32
  readOnly :: bool

text \<open>Modelled from the spec: a snapshot is \<open>(rootPageID, ts, mode)\<close>; the type and its
  readers are declared outside tbtree.go.\<close>

record Snapshot =
  snap_rootID :: PageID
  snap_ts :: u64
  snap_write :: bool

text \<open>\<^verbatim>\<open>type TimedValue struct\<close>\<close>

record TimedValue =
  tvValue :: "byte list"
  tvTs :: u64

section \<open>Parameters\<close>

text \<open>
  What the functions of tbtree.go use from the rest of the package and cannot be read
  off the spec is a parameter of the model, collected in one record that every function
  needing it takes as its first argument:
  \<^item> \<open>CommitMagic\<close>, the value of the constant \<^verbatim>\<open>CommitMagic\<close>;
  \<^item> \<open>pageHead\<close> and \<open>pageTail\<close>, the bytes that describe a page: its header with the
    offset table, and its entries;
  \<^item> \<open>PageFromBytes\<close> and \<open>expandToFixedPage\<close> (\<open>None\<close> when it fails), used to read a page;
  \<^item> \<open>leafFits\<close> and \<open>innerFits\<close>: whether a page has room for one more entry or key;
  \<^item> \<open>Validate\<close>, the method \<^verbatim>\<open>Options.Validate\<close>;
  \<^item> \<open>snap_GetBetween\<close> and \<open>snap_History\<close>, the readers of a snapshot.
\<close>

record pkg =
  CommitMagic :: u16
  pageHead :: "Page \<Rightarrow> byte list"
  pageTail :: "Page \<Rightarrow> byte list"
  PageFromBytes :: "byte list \<Rightarrow> Page"
  expandToFixedPage :: "byte list \<Rightarrow> byte list option"
  leafFits :: "Page \<Rightarrow> Entry \<Rightarrow> bool"
  innerFits :: "Page \<Rightarrow> byte list \<Rightarrow> bool"
  Validate :: "Options \<Rightarrow> error option"
  snap_GetBetween :: "TBTree \<Rightarrow> Snapshot \<Rightarrow> byte list \<Rightarrow> u64 \<Rightarrow> u64
                        \<Rightarrow> error + (byte list \<times> u64 \<times> u64)"
  snap_History :: "TBTree \<Rightarrow> Snapshot \<Rightarrow> byte list \<Rightarrow> u64 \<Rightarrow> bool \<Rightarrow> int
                     \<Rightarrow> error + (TimedValue list \<times> u64)"

text \<open>
  Modelled from the spec: \<^verbatim>\<open>Page.Put(buf)\<close>. The on-disk image of a page is exactly
  \<open>PageSize\<close> bytes: the header and the offset table grow from its head, the entries from
  its tail, and the bytes between the two are zero padding. \<^verbatim>\<open>Put\<close> writes the image
  over the first bytes of the buffer and returns the written length. The capacity of a
  page is bounded by \<open>PageSize\<close>; a page whose head and tail do not fit has no image of
  \<open>PageSize\<close> bytes, and its bytes would exceed the buffer.
\<close>

definition pageImage :: "pkg \<Rightarrow> Page \<Rightarrow> byte list" where
  "pageImage P pg =
     pageHead P pg
       @ replicate (PageSize - (length (pageHead P pg) + length (pageTail P pg))) 0
       @ pageTail P pg"

definition Put :: "pkg \<Rightarrow> Page \<Rightarrow> byte list \<Rightarrow> nat \<times> byte list" where
  "Put P pg buf =
     (length (pageImage P pg), pageImage P pg @ drop (length (pageImage P pg)) buf)"

text \<open>Modelled from the spec: \<^verbatim>\<open>InsertEntry\<close> of a leaf and \<^verbatim>\<open>InsertKey\<close> of an inner page.
  A new key is recorded with \<open>hOff = OffsetNone\<close> and \<open>hC = 0\<close>; a replaced key keeps its
  history fields (\<^verbatim>\<open>UpdateHistory\<close> advances them) and the previous entry is returned.
  \<^verbatim>\<open>InsertKey\<close> puts the separator at its place and the child id to its right. Both fail
  with \<open>ErrPageFull\<close> when the page has no room.\<close>

definition InsertEntry :: "pkg \<Rightarrow> Page \<Rightarrow> Entry \<Rightarrow> error + (Entry \<times> bool \<times> Page)" where
  "InsertEntry P pg e =
     (if \<not> leafFits P pg e then Inl ErrPageFull
      else case find (\<lambda>x. Key x = Key e) (leafEntries pg) of
        Some prev \<Rightarrow>
          Inr (prev, True,
               pg\<lparr>leafEntries := map (\<lambda>x. if Key x = Key e
                                             then e\<lparr>HOff := HOff prev, HC := HC prev\<rparr> else x)
                                      (leafEntries pg)\<rparr>)
      | None \<Rightarrow>
          Inr (zeroEntry, False,
               pg\<lparr>leafEntries := insort_key Key (e\<lparr>HOff := OffsetNone, HC := 0\<rparr>) (leafEntries pg),
                  NumEntries := NumEntries pg + 1\<rparr>))"

definition InsertKey :: "pkg \<Rightarrow> Page \<Rightarrow> byte list \<Rightarrow> PageID \<Rightarrow> error + (nat \<times> Page)" where
  "InsertKey P pg k pgid =
     (if \<not> innerFits P pg k then Inl ErrPageFull
      else
        let ks = take (NumEntries pg) (innerKeys pg);
            j = length (filter (\<lambda>s. s \<le> k) ks)
        in Inr (j, pg\<lparr>innerKeys := take j ks @ [k] @ drop j ks,
                      childIDs := take (j + 1) (childIDs pg) @ [pgid] @ drop (j + 1) (childIDs pg),
                      NumEntries := NumEntries pg + 1\<rparr>))"

section \<open>Commit entries\<close>

text \<open>\<^verbatim>\<open>type CommitEntry struct\<close> (declared outside tbtree.go; its fields are those that
  \<^verbatim>\<open>putCommitEntry\<close>, \<^verbatim>\<open>readCommitEntry\<close> and \<^verbatim>\<open>flushTo\<close> use).\<close>

record CommitEntry =
  Checksum :: u32
  Ts :: u64
  HLogLastEntryOff :: u64
  HLogLastEntryChecksum :: u32
  TotalPages :: u64
  StalePages :: u32
  IndexedEntryCount :: u32

text \<open>
  \<^verbatim>\<open>func putCommitEntry(e *CommitEntry, buf []byte)\<close>. The result is the buffer
  afterwards. With fewer than \<open>CommitEntrySize\<close> bytes one of the \<^verbatim>\<open>PutUint\<close> calls
  panics. The checksum is taken over \<^verbatim>\<open>buf[ChecksumSize:]\<close>, the whole rest of the buffer.
\<close>

definition putCommitEntry :: "pkg \<Rightarrow> CommitEntry \<Rightarrow> byte list \<Rightarrow> error + byte list" where
  "putCommitEntry P e buf0 =
     (if length buf0 < CommitEntrySize then Inl PanicOutOfRange
      else
        let off = 0;
            buf = PutUint32 buf0 off 0;
            off = off + 4;
            buf = PutUint64 buf off (Ts e);
            off = off + 8;
            buf = PutUint64 buf off (HLogLastEntryOff e);
            off = off + 8;
            buf = PutUint32 buf off (HLogLastEntryChecksum e);
            off = off + 4;
            buf = PutUint64 buf off (TotalPages e);
            off = off + 8;
            buf = PutUint32 buf off (StalePages e);
            off = off + 4;
            buf = PutUint32 buf off (IndexedEntryCount e);
            off = off + 4;
            buf = PutUint16 buf off (CommitMagic P);
            checksum = computeChecksum (drop ChecksumSize buf)
        in Inr (PutUint32 buf 0 checksum))"

text \<open>
  \<^verbatim>\<open>func readCommitEntry(buf []byte) (CommitEntry, error)\<close>. It starts from the zero
  \<^verbatim>\<open>CommitEntry\<close>, asserts the length, and does not look at the magic.
\<close>

definition readCommitEntry :: "byte list \<Rightarrow> error + CommitEntry" where
  "readCommitEntry buf =
     (if length buf \<noteq> CommitEntrySize then Inl (PanicAssert ''buf is too small'')
      else
        let off = 0;
            e = \<lparr>Checksum = 0, Ts = 0, HLogLastEntryOff = 0, HLogLastEntryChecksum = 0,
                 TotalPages = 0, StalePages = 0, IndexedEntryCount = 0\<rparr>;
            e = e\<lparr>Checksum := Uint32 (drop off buf)\<rparr>;
            off = off + 4;
            e = e\<lparr>Ts := Uint64 (drop off buf)\<rparr>;
            off = off + 8;
            e = e\<lparr>HLogLastEntryOff := Uint64 (drop off buf)\<rparr>;
            off = off + 8;
            e = e\<lparr>HLogLastEntryChecksum := Uint32 (drop off buf)\<rparr>;
            off = off + 4;
            e = e\<lparr>TotalPages := Uint64 (drop off buf)\<rparr>;
            off = off + 8;
            e = e\<lparr>StalePages := Uint32 (drop off buf)\<rparr>;
            off = off + 4;
            e = e\<lparr>IndexedEntryCount := Uint32 (drop off buf)\<rparr>
        in if computeChecksum (drop ChecksumSize buf) \<noteq> Checksum e then Inl ErrCorruptedEntry
           else Inr e)"

text \<open>The layout of a commit entry after the checksum: the 38 bytes the checksum covers.\<close>

definition commitEntryBody :: "CommitEntry \<Rightarrow> u16 \<Rightarrow> byte list" where
  "commitEntryBody e m =
     be64 (Ts e) @ be64 (HLogLastEntryOff e) @ be32 (HLogLastEntryChecksum e)
       @ be64 (TotalPages e) @ be32 (StalePages e) @ be32 (IndexedEntryCount e) @ be16 m"

text \<open>\<^verbatim>\<open>func commit(e *CommitEntry, app appendable.Appendable) error\<close>\<close>

definition commit :: "pkg \<Rightarrow> CommitEntry \<Rightarrow> appendable \<Rightarrow> error option \<times> appendable" where
  "commit P e app =
     (case putCommitEntry P e (replicate CommitEntrySize 0) of
        Inl err \<Rightarrow> (Some err, app)
      | Inr buf \<Rightarrow>
          (case app_Append app buf of
             Inl err \<Rightarrow> (Some err, app)
           | Inr (_, _, app') \<Rightarrow> (app_Flush app', app')))"

section \<open>Reading pages and recovery\<close>

text \<open>\<^verbatim>\<open>func (t *TBTree) Ts() uint64\<close>\<close>

definition tree_Ts :: "TBTree \<Rightarrow> u64" where
  "tree_Ts t = rootTs t"

text \<open>\<^verbatim>\<open>func (tb *TBTree) Path() string\<close>, on a pointer that may be nil: reading the field
  of a nil receiver is a nil dereference.\<close>

definition tree_Path :: "TBTree option \<Rightarrow> error + string" where
  "tree_Path tb = (case tb of None \<Rightarrow> Inl PanicNilDereference | Some t \<Rightarrow> Inr (path t))"

text \<open>\<^verbatim>\<open>func (t *TBTree) rootPageID() PageID\<close>, \<^verbatim>\<open>func (t *TBTree) lastSnapshotRootID() PageID\<close>\<close>

definition rootPageID :: "TBTree \<Rightarrow> PageID" where
  "rootPageID t = rootID t"

definition lastSnapshotRootID :: "TBTree \<Rightarrow> PageID" where
  "lastSnapshotRootID t = lastSnapshotID t"

text \<open>
  \<^verbatim>\<open>func readPageToBuf(pgBuf []byte, r io.ReaderAt, off int64) error\<close>. The result is
  the buffer afterwards. A negative offset reads the start of the log into the tail of
  the buffer and leaves its head as it was.
\<close>

definition readPageToBuf :: "byte list \<Rightarrow> appendable \<Rightarrow> int \<Rightarrow> error + byte list" where
  "readPageToBuf pgBuf r off =
     (if off < 0 then
        (if length pgBuf < nat (- off) then Inl PanicOutOfRange
         else case app_ReadAt r (length pgBuf - nat (- off)) 0 of
                Inl err \<Rightarrow> Inl err
              | Inr bs \<Rightarrow> Inr (take (nat (- off)) pgBuf @ bs))
      else app_ReadAt r (length pgBuf) off)"

text \<open>
  \<^verbatim>\<open>func (t *TBTree) readPage(dst []byte, pgID PageID) error\<close>. \<^verbatim>\<open>off\<close> is an \<^verbatim>\<open>int64\<close>:
  the subtraction and the addition wrap, and the comparison is signed. A page id is the
  offset of the end of the page's image, which need not fill \<open>PageSize\<close> bytes.
\<close>

definition readPage :: "pkg \<Rightarrow> TBTree \<Rightarrow> byte list \<Rightarrow> PageID \<Rightarrow> error + byte list" where
  "readPage P t dst pgID =
     (let off = pgID - of_nat PageSize
      in if sint (off + of_nat PageSize - 1) < 0 then Inl ErrInvalidPageID
         else case readPageToBuf dst (treeApp t) (sint off) of
                Inl err \<Rightarrow> Inl err
              | Inr dst' \<Rightarrow>
                  (case expandToFixedPage P dst' of
                     None \<Rightarrow> Inl ErrCorruptedPage
                   | Some dst'' \<Rightarrow> Inr dst''))"

text \<open>Modelled from the spec: \<^verbatim>\<open>PageBuffer.Get(treeID, pgID, loader)\<close> returns the page
  with that id, filling a slot with \<^verbatim>\<open>loader\<close> on a miss; the slot is released after
  use.\<close>

definition pgBuf_Get :: "pkg \<Rightarrow> TBTree \<Rightarrow> PageID \<Rightarrow> error + Page" where
  "pgBuf_Get P t pgID =
     (case readPage P t (replicate PageSize 0) pgID of
        Inl err \<Rightarrow> Inl err
      | Inr bs \<Rightarrow> Inr (PageFromBytes P bs))"

text \<open>\<^verbatim>\<open>func findMagic(buf []byte) int\<close>: the loop from \<^verbatim>\<open>len(buf) - 2\<close> down to 1, then
  the test of \<^verbatim>\<open>buf[0]\<close>.\<close>

fun findMagic_from :: "u16 \<Rightarrow> byte list \<Rightarrow> nat \<Rightarrow> int" where
  "findMagic_from m buf 0 = (if buf ! 0 = ucast (m AND 0xFF) then 0 else - 1)"
| "findMagic_from m buf (Suc i) =
     (if buf ! Suc i = ucast (m AND 0xFF) \<and> buf ! i = ucast (drop_bit 8 m) then int (Suc i)
      else findMagic_from m buf i)"

definition findMagic :: "pkg \<Rightarrow> byte list \<Rightarrow> int" where
  "findMagic P buf =
     (if length buf < 2 then - 1 else findMagic_from (CommitMagic P) buf (length buf - 2))"

lemma findMagic_from_le: "findMagic_from m buf n \<le> int n"
  by (induction n) auto

lemma findMagic_le: "2 \<le> length buf \<Longrightarrow> findMagic P buf \<le> int (length buf) - 2"
  using findMagic_from_le [of "CommitMagic P" buf "length buf - 2"]
  by (simp add: findMagic_def)

lemma readCommitEntry_length:
  "readCommitEntry buf = Inl err \<Longrightarrow> err \<noteq> PanicAssert ''buf is too small''
     \<Longrightarrow> length buf = CommitEntrySize"
  by (auto simp: readCommitEntry_def split: if_splits)

text \<open>
  \<^verbatim>\<open>func (t *TBTree) findLastValidPage() (CommitEntry, int64, error)\<close>: the loop over
  \<^verbatim>\<open>off\<close>, from \<^verbatim>\<open>size - CommitEntrySize\<close> downwards.
\<close>

function findLastValidPage_from :: "pkg \<Rightarrow> appendable \<Rightarrow> int \<Rightarrow> error + (CommitEntry \<times> int)" where
  "findLastValidPage_from P app off =
     (if off < 0 then Inl ErrNoValidPageFound
      else case app_ReadAt app CommitEntrySize off of
        Inl err \<Rightarrow> Inl err
      | Inr buf \<Rightarrow>
          (case readCommitEntry buf of
             Inr e \<Rightarrow> Inr (e, off)
           | Inl err \<Rightarrow>
               if err = PanicAssert ''buf is too small'' then Inl err
               else
                 let i = findMagic P buf
                 in if 0 \<le> i then findLastValidPage_from P app (off - (int CommitEntrySize - i - 1))
                    else findLastValidPage_from P app (off - int CommitEntrySize)))"
  by pat_completeness auto
termination
proof (relation "measure (\<lambda>(P, app, off). nat (off + 1))", goal_cases)
  case 1
  show ?case by simp
next
  case (2 P app off buf err i)
  from 2 have "length buf = CommitEntrySize"
    by (auto dest: readCommitEntry_length)
  then have "findMagic P buf \<le> 40"
    using findMagic_le [of buf P] by (simp add: CommitEntrySize_def CommitMagicSize_def)
  with 2 show ?case
    by (simp add: CommitEntrySize_def CommitMagicSize_def)
next
  case (3 P app off buf err i)
  then show ?case
    by (simp add: CommitEntrySize_def CommitMagicSize_def)
qed

definition findLastValidPage :: "pkg \<Rightarrow> TBTree \<Rightarrow> error + (CommitEntry \<times> int)" where
  "findLastValidPage P t =
     (case app_Size (treeApp t) of
        Inl err \<Rightarrow> Inl err
      | Inr sz \<Rightarrow> findLastValidPage_from P (treeApp t) (sz - int CommitEntrySize))"

text \<open>
  \<^verbatim>\<open>func (t *TBTree) recoverRootPage() error\<close>. The result is the returned error and
  the tree afterwards. \<^verbatim>\<open>int64(commitEntry.HLogLastEntryOff)\<close> is the signed reading.
\<close>

definition recoverRootPage :: "pkg \<Rightarrow> TBTree \<Rightarrow> error option \<times> TBTree" where
  "recoverRootPage P t =
     (case findLastValidPage P t of
        Inl err \<Rightarrow>
          if err = ErrNoValidPageFound then
            (case app_SetOffset (historyApp t) 0 of
               Inl err' \<Rightarrow> (Some err', t)
             | Inr h \<Rightarrow> (Some ErrNoValidPageFound, t\<lparr>historyApp := h\<rparr>))
          else (Some err, t)
      | Inr (commitEntry, rootPageOff) \<Rightarrow>
          (case readPage P t (replicate PageSize 0) (of_int rootPageOff) of
             Inl err \<Rightarrow> (Some err, t)
           | Inr pgBuf \<Rightarrow>
               let pg = PageFromBytes P pgBuf
               in if \<not> IsRoot pg then (Some ErrCorruptedTreeLog, t)
                  else
                    (case app_SetOffset (treeApp t) (rootPageOff + int CommitEntrySize) of
                       Inl err \<Rightarrow> (Some err, t)
                     | Inr ta \<Rightarrow>
                         (case app_SetOffset (historyApp t) (sint (HLogLastEntryOff commitEntry)) of
                            Inl err \<Rightarrow> (Some err, t\<lparr>treeApp := ta\<rparr>)
                          | Inr ha \<Rightarrow>
                              let rootPageID = of_int rootPageOff
                              in (None, t\<lparr>treeApp := ta, historyApp := ha,
                                           rootTs := Ts commitEntry,
                                           rootID := rootPageID,
                                           lastSnapshotID := rootPageID,
                                           lastSnapshotTs := Ts commitEntry,
                                           indexedEntryCount := IndexedEntryCount commitEntry,
                                           numPages := TotalPages commitEntry,
                                           stalePages := StalePages commitEntry\<rparr>)))))"

text \<open>
  \<^verbatim>\<open>func OpenWith(path string, treeApp, historyApp appendable.Appendable, opts *Options)\<close>.
  The two logs may be nil. The fields the struct literal does not name are zero.
\<close>

definition OpenWith :: "pkg \<Rightarrow> string \<Rightarrow> appendable option \<Rightarrow> appendable option \<Rightarrow> Options
    \<Rightarrow> error + TBTree" where
  "OpenWith P path0 treeApp0 historyApp0 opts =
     (case (treeApp0, historyApp0) of
        (Some ta, Some ha) \<Rightarrow>
          (case Validate P opts of
             Some err \<Rightarrow> Inl err
           | None \<Rightarrow>
               let t = \<lparr>path = path0, mtx_held = False, mutated = False, wb = opt_wb opts,
                        rootID = 0, lastSnapshotID = 0, rootTs = 0, lastSnapshotTs = 0,
                        indexedEntryCount = 0,
                        headHistoryPageID = PageNone, tailHistoryPageID = PageNone,
                        bufferedHistoryData = 0, treeApp = ta, historyApp = ha,
                        numPages = 0, stalePages = 0, nSplits = 0, depth = 0,
                        snapshotCount = 0, maxActiveSnapshots = opt_maxActiveSnapshots opts,
                        syncThld = opt_syncThld opts, unsyncedBytes = 0,
                        readOnly = opt_readOnly opts\<rparr>
               in (case recoverRootPage P t of
                     (Some err, t') \<Rightarrow>
                       if err = ErrNoValidPageFound
                       then Inr (t'\<lparr>rootID := PageNone, lastSnapshotID := PageNone\<rparr>)
                       else Inl err
                   | (None, t') \<Rightarrow> Inr t'))
      | _ \<Rightarrow> Inl ErrIllegalArguments)"

text \<open>\<^verbatim>\<open>strings.HasPrefix\<close>, \<^verbatim>\<open>strings.Split\<close> with a one-character separator, and
  \<^verbatim>\<open>strconv.ParseUint(s, 10, 64)\<close>: decimal digits only, at least one, no sign, and a
  value below \<open>2 ^ 64\<close>.\<close>

definition HasPrefix :: "string \<Rightarrow> string \<Rightarrow> bool" where
  "HasPrefix s p \<longleftrightarrow> take (length p) s = p"

fun Split :: "string \<Rightarrow> char \<Rightarrow> string list" where
  "Split [] c = [[]]"
| "Split (x # xs) c =
     (if x = c then [] # Split xs c
      else (case Split xs c of [] \<Rightarrow> [[x]] | p # ps \<Rightarrow> (x # p) # ps))"

definition isDigit :: "char \<Rightarrow> bool" where
  "isDigit c \<longleftrightarrow> 48 \<le> (of_char c :: nat) \<and> (of_char c :: nat) \<le> 57"

definition ParseUint :: "string \<Rightarrow> u64 option" where
  "ParseUint s =
     (if s = [] \<or> \<not> list_all isDigit s then None
      else
        let n = foldl (\<lambda>a c. 10 * a + (of_char c - 48)) (0::nat) s
        in if n < 2 ^ 64 then Some (of_nat n) else None)"

text \<open>
  \<^verbatim>\<open>func recoverLatestValidTreeSnapshot(dir string, readDir ReadDirFunc, recoverSnap
  func(snapPath string, snapTs uint64) error) (int, error)\<close>. The closure \<^verbatim>\<open>recoverSnap\<close>
  writes to variables of its caller: it takes and returns their state \<open>'s\<close>. The loop
  takes the entries in the order in which \<^verbatim>\<open>readDir\<close> returned them.
\<close>

fun recoverSnaps :: "DirEntry list \<Rightarrow> (string \<Rightarrow> u64 \<Rightarrow> 's \<Rightarrow> error option \<times> 's) \<Rightarrow> nat \<Rightarrow> 's
    \<Rightarrow> nat \<times> 's" where
  "recoverSnaps [] recoverSnap recoveryAttempts s = (recoveryAttempts, s)"
| "recoverSnaps (e # entries) recoverSnap recoveryAttempts s =
     (if \<not> IsDir e \<or> \<not> HasPrefix (Name e) TreeLogFileName
      then recoverSnaps entries recoverSnap recoveryAttempts s
      else
        let parts = Split (Name e) (CHR ''_'')
        in if length parts \<noteq> 2 then recoverSnaps entries recoverSnap recoveryAttempts s
           else
             (case ParseUint (parts ! 1) of
                None \<Rightarrow> recoverSnaps entries recoverSnap recoveryAttempts s
              | Some snapTs \<Rightarrow>
                  if parts ! 0 \<noteq> TreeLogFileName
                  then recoverSnaps entries recoverSnap recoveryAttempts s
                  else
                    (case recoverSnap (Name e) snapTs s of
                       (None, s') \<Rightarrow> (0, s')
                     | (Some err, s') \<Rightarrow>
                         recoverSnaps entries recoverSnap (recoveryAttempts + 1) s')))"

definition recoverLatestValidTreeSnapshot ::
    "string \<Rightarrow> (string \<Rightarrow> error + DirEntry list) \<Rightarrow> (string \<Rightarrow> u64 \<Rightarrow> 's \<Rightarrow> error option \<times> 's) \<Rightarrow> 's
      \<Rightarrow> (error + nat) \<times> 's" where
  "recoverLatestValidTreeSnapshot dir readDir recoverSnap s =
     (case readDir dir of
        Inl err \<Rightarrow> (Inl err, s)
      | Inr entries \<Rightarrow>
          (case recoverSnaps entries recoverSnap 0 s of (n, s') \<Rightarrow> (Inr n, s')))"

text \<open>
  \<^verbatim>\<open>func Open(path string, opts *Options) (*TBTree, error)\<close>. What \<^verbatim>\<open>Open\<close> does to its
  environment is part of the result: the directories it removed with \<^verbatim>\<open>appRemove\<close> and
  the warnings it logged. The closure passed to \<^verbatim>\<open>recoverLatestValidTreeSnapshot\<close>
  assigns \<^verbatim>\<open>t\<close> (nil when \<^verbatim>\<open>OpenWith\<close> fails) and removes the snapshot that failed. A
  failed \<^verbatim>\<open>OpenWith\<close> leaves the history log, which all attempts share, as it was.
\<close>

datatype logmsg = NoSnapshotRecovered string nat

record OpenEffects =
  removed :: "(string \<times> string) list"
  warnings :: "logmsg list"

definition Open_recoverSnap :: "pkg \<Rightarrow> string \<Rightarrow> Options \<Rightarrow> appendable
    \<Rightarrow> string \<Rightarrow> u64 \<Rightarrow> TBTree option \<times> (string \<times> string) list
    \<Rightarrow> error option \<times> TBTree option \<times> (string \<times> string) list" where
  "Open_recoverSnap P path0 opts historyApp0 snapPath snapTs s =
     (case opt_appFactory opts path0 snapPath of
        Inl err \<Rightarrow> (Some err, s)
      | Inr treeApp0 \<Rightarrow>
          (case OpenWith P path0 (Some treeApp0) (Some historyApp0) opts of
             Inl err \<Rightarrow> (Some err, None, snd s @ [(path0, snapPath)])
           | Inr t \<Rightarrow> (None, Some t, snd s)))"

definition Open :: "pkg \<Rightarrow> string \<Rightarrow> Options \<Rightarrow> (error + TBTree) \<times> OpenEffects" where
  "Open P path0 opts =
     (case Validate P opts of
        Some err \<Rightarrow> (Inl err, \<lparr>removed = [], warnings = []\<rparr>)
      | None \<Rightarrow>
          (case opt_appFactory opts path0 HistoryLogFileName of
             Inl err \<Rightarrow> (Inl err, \<lparr>removed = [], warnings = []\<rparr>)
           | Inr historyApp0 \<Rightarrow>
               (case recoverLatestValidTreeSnapshot path0 (opt_readDir opts)
                       (Open_recoverSnap P path0 opts historyApp0) (None, []) of
                  (Inl err, (t, rm)) \<Rightarrow> (Inl err, \<lparr>removed = rm, warnings = []\<rparr>)
                | (Inr recoveryAttempts, (t, rm)) \<Rightarrow>
                    (case t of
                       Some t' \<Rightarrow> (Inr t', \<lparr>removed = rm, warnings = []\<rparr>)
                     | None \<Rightarrow>
                         (case (if 0 < recoveryAttempts
                                then (case tree_Path t of
                                        Inl p \<Rightarrow> Inl p
                                      | Inr s \<Rightarrow> Inr [NoSnapshotRecovered s recoveryAttempts])
                                else Inr []) of
                            Inl p \<Rightarrow> (Inl p, \<lparr>removed = rm, warnings = []\<rparr>)
                          | Inr ws \<Rightarrow>
                              (case opt_appFactory opts path0 TreeLogFileName of
                                 Inl err \<Rightarrow> (Inl err, \<lparr>removed = rm, warnings = ws\<rparr>)
                               | Inr treeApp0 \<Rightarrow>
                                   (OpenWith P path0 (Some treeApp0) (Some historyApp0) opts,
                                    \<lparr>removed = rm, warnings = ws\<rparr>)))))))"

section \<open>Advance\<close>

text \<open>
  \<^verbatim>\<open>func (t *TBTree) Advance(ts uint64, entryCount uint32) error\<close>. The result is the
  returned error (\<open>None\<close> for \<^verbatim>\<open>nil\<close>) and the tree afterwards.
\<close>

definition Advance :: "TBTree \<Rightarrow> u64 \<Rightarrow> u32 \<Rightarrow> error option \<times> TBTree" where
  "Advance t ts entryCount =
     (let rootTs0 = tree_Ts t in
      if ts = tree_Ts t then (None, t)
      else if ts < rootTs0 then (Some ErrInvalidTimestamp, t)
      else if mtx_held t then (Some ErrTreeLocked, t)
      else (None, t\<lparr>rootTs := ts, indexedEntryCount := entryCount\<rparr>))"

section \<open>Insert\<close>

text \<open>Modelled from the spec: \<^verbatim>\<open>WriteBuffer.GetOrDup(pgID, loader)\<close> returns the page
  itself when it is in memory; otherwise it allocates an in-memory page, fills it with
  the persisted page through \<^verbatim>\<open>loader\<close> and marks it as a copy. The loader of tbtree.go
  is \<^verbatim>\<open>func (t *TBTree) dupPage(pgID PageID, dst []byte) error\<close>, a read through the
  page buffer. A pointer to a page of the write buffer is the page's id.\<close>

definition dupPage :: "pkg \<Rightarrow> TBTree \<Rightarrow> PageID \<Rightarrow> error + Page" where
  "dupPage P t pgID = pgBuf_Get P t pgID"

definition GetOrDup :: "pkg \<Rightarrow> TBTree \<Rightarrow> PageID \<Rightarrow> (error + PageID) \<times> TBTree" where
  "GetOrDup P t pgID =
     (if isMemPage pgID then
        (case wb_Get (wb t) pgID of Inl err \<Rightarrow> (Inl err, t) | Inr _ \<Rightarrow> (Inr pgID, t))
      else
        (case wb_alloc (wb t) (MemPage newLeafPage) of
           Inl err \<Rightarrow> (Inl err, t)
         | Inr (newPageID0, w) \<Rightarrow>
             (case dupPage P t pgID of
                Inl err \<Rightarrow> (Inl err, t\<lparr>wb := w\<rparr>)
              | Inr pg \<Rightarrow>
                  (Inr newPageID0,
                   t\<lparr>wb := wb_store w newPageID0 (MemPage (pg\<lparr>IsCopied := True\<rparr>))\<rparr>))))"

text \<open>\<^verbatim>\<open>type insertResult struct\<close>; \<open>splitPage\<close> is a pointer to a page of the write
  buffer, nil in the zero value.\<close>

record insertResult =
  split :: bool
  newPageID :: PageID
  splitPageID :: PageID
  splitPage :: "PageID option"

definition zeroInsertResult :: insertResult where
  "zeroInsertResult = \<lparr>split = False, newPageID = 0, splitPageID = 0, splitPage = None\<rparr>"

text \<open>\<^verbatim>\<open>func (r *insertResult) sepKey() []byte\<close>\<close>

definition sepKey :: "WriteBuffer \<Rightarrow> insertResult \<Rightarrow> error + byte list" where
  "sepKey w r =
     (case splitPage r of
        None \<Rightarrow> Inl PanicNilDereference
      | Some p \<Rightarrow>
          (case wb_Get w p of
             Inl err \<Rightarrow> Inl err
           | Inr pg \<Rightarrow> if IsLeaf pg then firstKey pg else keyAt pg (NumEntries pg)))"

text \<open>\<^verbatim>\<open>func (t *TBTree) canAccommodateWrite() bool\<close>\<close>

definition canAccommodateWrite :: "TBTree \<Rightarrow> bool" where
  "canAccommodateWrite t = wb_Grow (wb t) (depth t + 2)"

text \<open>\<^verbatim>\<open>func (t *TBTree) getCurrHistoryPage() (*HistoryPage, error)\<close>\<close>

definition getCurrHistoryPage :: "TBTree \<Rightarrow> (error + PageID) \<times> TBTree" where
  "getCurrHistoryPage t =
     (if headHistoryPageID t = PageNone then
        (case AllocHistoryPage (wb t) of
           Inl err \<Rightarrow> (Inl err, t)
         | Inr (pgid, w) \<Rightarrow>
             (Inr pgid, t\<lparr>wb := w, headHistoryPageID := pgid, tailHistoryPageID := pgid\<rparr>))
      else
        (case wb_GetHistoryPage (wb t) (tailHistoryPageID t) of
           Inl err \<Rightarrow> (Inl err, t)
         | Inr _ \<Rightarrow> (Inr (tailHistoryPageID t), t)))"

text \<open>\<^verbatim>\<open>func (t *TBTree) archiveEntry(e *Entry) (uint64, error)\<close>. On an error the Go
  function returns \<^verbatim>\<open>OffsetNone\<close> with it.\<close>

definition archiveEntry :: "TBTree \<Rightarrow> Entry \<Rightarrow> (error + u64) \<times> TBTree" where
  "archiveEntry t e =
     (case getCurrHistoryPage t of
        (Inl err, t1) \<Rightarrow> (Inl err, t1)
      | (Inr pgid, t1) \<Rightarrow>
          (case wb_GetHistoryPage (wb t1) pgid of
             Inl err \<Rightarrow> (Inl err, t1)
           | Inr pg \<Rightarrow>
               let he = \<lparr>PrevOffset = HOff e, hTs = eTs e, hValue = Value e\<rparr>;
                   appended =
                     (case hp_Append pg he of
                        Inr (n, pg') \<Rightarrow> (Inr n, t1\<lparr>wb := wb_store (wb t1) pgid (MemHistoryPage pg')\<rparr>)
                      | Inl err \<Rightarrow>
                          if err = ErrPageFull then
                            (case AllocHistoryPage (wb t1) of
                               Inl err1 \<Rightarrow> (Inl err1, t1)
                             | Inr (newPageID0, w) \<Rightarrow>
                                 let w1 = wb_store w pgid (MemHistoryPage (pg\<lparr>NextPageID := newPageID0\<rparr>));
                                     t2 = t1\<lparr>wb := w1, tailHistoryPageID := newPageID0\<rparr>
                                 in (case hp_Append newHistoryPage he of
                                       Inl err2 \<Rightarrow> (Inl err2, t2)
                                     | Inr (n, newPage) \<Rightarrow>
                                         (Inr n, t2\<lparr>wb := wb_store w1 newPageID0 (MemHistoryPage newPage)\<rparr>)))
                          else (Inl err, t1))
               in (case appended of
                     (Inl err, t3) \<Rightarrow> (Inl err, t3)
                   | (Inr n, t3) \<Rightarrow>
                       let hoff = bufferedHistoryData t3
                       in (Inr hoff, t3\<lparr>bufferedHistoryData := bufferedHistoryData t3 + of_nat n\<rparr>))))"

text \<open>\<^verbatim>\<open>func (t *TBTree) splitLeafPage(pg *Page, pgID PageID, e *Entry) (insertResult, error)\<close>;
  \<open>pg\<close> is the page of the write buffer with id \<open>pgID\<close>.\<close>

definition tree_splitLeafPage :: "TBTree \<Rightarrow> PageID \<Rightarrow> Entry \<Rightarrow> (error + insertResult) \<times> TBTree" where
  "tree_splitLeafPage t pgID e =
     (let t1 = t\<lparr>nSplits := nSplits t + 1\<rparr>
      in case AllocLeafPage (wb t1) of
           Inl err \<Rightarrow> (Inl err, t1)
         | Inr (splitPageID0, w) \<Rightarrow>
             let t2 = t1\<lparr>wb := w\<rparr>
             in (case wb_Get (wb t2) pgID of
                   Inl err \<Rightarrow> (Inl err, t2)
                 | Inr pg \<Rightarrow>
                     (case (case Remove pg (Key e) of
                              Inl err \<Rightarrow> if err = ErrKeyNotFound then Inr (None, pg) else Inl err
                            | Inr (prev, pg') \<Rightarrow> Inr (Some prev, pg')) of
                        Inl err \<Rightarrow> (Inl err, t2)
                      | Inr (prevEntry, pg1) \<Rightarrow>
                          let t3 = t2\<lparr>wb := wb_store (wb t2) pgID (MemPage pg1)\<rparr>
                          in (case (case prevEntry of
                                      None \<Rightarrow> (Inr e, t3)
                                    | Some prev \<Rightarrow>
                                        (case archiveEntry t3 prev of
                                           (Inl err, t4) \<Rightarrow> (Inl err, t4)
                                         | (Inr hoff, t4) \<Rightarrow>
                                             (Inr (e\<lparr>HOff := hoff, HC := HC prev + 1\<rparr>), t4))) of
                                (Inl err, t4) \<Rightarrow> (Inl err, t4)
                              | (Inr e', t4) \<Rightarrow>
                                  (case (wb_Get (wb t4) pgID, wb_Get (wb t4) splitPageID0) of
                                     (Inr pg2, Inr sp) \<Rightarrow>
                                       (case page_splitLeafPage pg2 sp e' of
                                          (pg3, sp') \<Rightarrow>
                                            (Inr \<lparr>split = True, newPageID = pgID,
                                                  splitPageID = splitPageID0,
                                                  splitPage = Some splitPageID0\<rparr>,
                                             t4\<lparr>wb := wb_store (wb_store (wb t4) pgID (MemPage pg3))
                                                        splitPageID0 (MemPage sp')\<rparr>))
                                   | (Inl err, _) \<Rightarrow> (Inl err, t4)
                                   | (_, Inl err) \<Rightarrow> (Inl err, t4))))))"

text \<open>\<^verbatim>\<open>func (t *TBTree) insertLeaf(pg *Page, pgID PageID, e Entry, depth int)
  (insertResult, error)\<close>\<close>

definition insertLeaf :: "pkg \<Rightarrow> TBTree \<Rightarrow> PageID \<Rightarrow> Entry \<Rightarrow> nat \<Rightarrow> (error + insertResult) \<times> TBTree" where
  "insertLeaf P t pgID e depth0 =
     (case wb_Get (wb t) pgID of
        Inl err \<Rightarrow> (Inl err, t)
      | Inr pg \<Rightarrow>
          (case InsertEntry P pg e of
             Inl err \<Rightarrow> if err = ErrPageFull then tree_splitLeafPage t pgID e else (Inl err, t)
           | Inr (prevEntry, replaced, pg') \<Rightarrow>
               let t1 = t\<lparr>wb := wb_store (wb t) pgID (MemPage pg')\<rparr>
               in (case (if replaced then
                           (case archiveEntry t1 prevEntry of
                              (Inl err, t2) \<Rightarrow> (Some err, t2)
                            | (Inr hoff, t2) \<Rightarrow>
                                (case wb_Get (wb t2) pgID of
                                   Inl err \<Rightarrow> (Some err, t2)
                                 | Inr pg2 \<Rightarrow>
                                     (None, t2\<lparr>wb := wb_store (wb t2) pgID
                                                        (MemPage (UpdateHistory pg2 (Key e) hoff))\<rparr>)))
                         else (None, t1)) of
                     (Some err, t3) \<Rightarrow> (Inl err, t3)
                   | (None, t3) \<Rightarrow>
                       (Inr \<lparr>split = False, newPageID = pgID, splitPageID = 0, splitPage = None\<rparr>,
                        t3\<lparr>depth := depth0\<rparr>))))"

text \<open>\<^verbatim>\<open>func (t *TBTree) insertEmpty(e *Entry) (insertResult, error)\<close>\<close>

definition insertEmpty :: "pkg \<Rightarrow> TBTree \<Rightarrow> Entry \<Rightarrow> (error + insertResult) \<times> TBTree" where
  "insertEmpty P t e =
     (case AllocLeafPage (wb t) of
        Inl err \<Rightarrow> (Inl err, t)
      | Inr (newPageID0, w) \<Rightarrow>
          let t1 = t\<lparr>wb := w\<rparr>
          in (case InsertEntry P newLeafPage e of
                Inl err \<Rightarrow> (Inl err, t1)
              | Inr (_, _, pg) \<Rightarrow>
                  (Inr \<lparr>split = False, newPageID = newPageID0, splitPageID = 0, splitPage = None\<rparr>,
                   t1\<lparr>wb := wb_store w newPageID0 (MemPage (SetAsRoot pg)),
                      depth := depth t1 + 1\<rparr>)))"

text \<open>
  \<^verbatim>\<open>func (t *TBTree) insertInnerPage(pg *Page, newPageID PageID, res insertResult)
  (insertResult, bool, error)\<close>. An error of \<^verbatim>\<open>InsertKey\<close> other than \<^verbatim>\<open>ErrPageFull\<close>
  is dropped, as in the source. The \<^verbatim>\<open>err\<close> returned after the split is the one
  declared inside the \<^verbatim>\<open>if\<close>, which is nil there.
\<close>

definition insertInnerPage :: "pkg \<Rightarrow> TBTree \<Rightarrow> PageID \<Rightarrow> insertResult
    \<Rightarrow> (insertResult \<times> bool \<times> error option) \<times> TBTree" where
  "insertInnerPage P t newPageID0 res =
     (case sepKey (wb t) res of
        Inl p \<Rightarrow> ((zeroInsertResult, True, Some p), t)
      | Inr sepKey0 \<Rightarrow>
          (case wb_Get (wb t) newPageID0 of
             Inl p \<Rightarrow> ((zeroInsertResult, True, Some p), t)
           | Inr pg \<Rightarrow>
               (case InsertKey P pg sepKey0 (splitPageID res) of
                  Inr (_, pg') \<Rightarrow>
                    ((zeroInsertResult, False, None),
                     t\<lparr>wb := wb_store (wb t) newPageID0 (MemPage pg')\<rparr>)
                | Inl err \<Rightarrow>
                    if err = ErrPageFull then
                      (let t1 = t\<lparr>nSplits := nSplits t + 1\<rparr>
                       in case AllocInnerPage (wb t1) of
                            Inl err1 \<Rightarrow> ((zeroInsertResult, True, Some err1), t1)
                          | Inr (splitPageID0, w) \<Rightarrow>
                              (case splitInnerPage pg newInnerPage sepKey0 (splitPageID res)
                                      (newPageID res) of
                                 (pg', splitPage0) \<Rightarrow>
                                   ((\<lparr>split = True, newPageID = newPageID0,
                                      splitPageID = splitPageID0, splitPage = Some newPageID0\<rparr>,
                                     True, None),
                                    t1\<lparr>wb := wb_store (wb_store w newPageID0 (MemPage pg'))
                                               splitPageID0 (MemPage splitPage0)\<rparr>)))
                    else ((zeroInsertResult, False, None), t))))"

text \<open>
  The end of \<^verbatim>\<open>insert\<close>, after the recursive call has returned \<open>res\<close> without an error:
  the separator goes into the page when the child was split, and the child's slot gets
  the child's new id.
\<close>

definition insert_after :: "pkg \<Rightarrow> TBTree \<Rightarrow> PageID \<Rightarrow> nat \<Rightarrow> insertResult
    \<Rightarrow> (error + insertResult) \<times> TBTree" where
  "insert_after P t newPageID0 idx res =
     (case (if split res then
              (case insertInnerPage P t newPageID0 res of
                 ((res', splitted, err), t') \<Rightarrow>
                   if splitted \<or> err \<noteq> None
                   then (Some (case err of Some e \<Rightarrow> Inl e | None \<Rightarrow> Inr res'), t')
                   else (None, t'))
            else (None, t)) of
        (Some r, t') \<Rightarrow> (r, t')
      | (None, t') \<Rightarrow>
          (case wb_Get (wb t') newPageID0 of
             Inl p \<Rightarrow> (Inl p, t')
           | Inr pg \<Rightarrow>
               (case SetPageID pg idx (newPageID res) of
                  Inl p \<Rightarrow> (Inl p, t')
                | Inr pg' \<Rightarrow>
                    (Inr \<lparr>split = False, newPageID = newPageID0, splitPageID = 0, splitPage = None\<rparr>,
                     t'\<lparr>wb := wb_store (wb t') newPageID0 (MemPage pg')\<rparr>))))"

text \<open>
  \<^verbatim>\<open>func (t *TBTree) insert(id PageID, e Entry, depth int) (insertResult, error)\<close>. The
  recursion follows the child ids stored in the pages, so nothing bounds it: \<open>None\<close> is
  a call that does not return.
\<close>

partial_function (option) tree_insert :: "pkg \<Rightarrow> TBTree \<Rightarrow> PageID \<Rightarrow> Entry \<Rightarrow> nat
    \<Rightarrow> ((error + insertResult) \<times> TBTree) option" where
  "tree_insert P t pgid e depth0 =
     (if pgid = PageNone then Some (insertEmpty P t e)
      else
        (case GetOrDup P t pgid of
           (Inl err, t1) \<Rightarrow> Some (Inl err, t1)
         | (Inr newPageID0, t1) \<Rightarrow>
             (case wb_Get (wb t1) newPageID0 of
                Inl err \<Rightarrow> Some (Inl err, t1)
              | Inr pg \<Rightarrow>
                  if IsLeaf pg then Some (insertLeaf P t1 newPageID0 e depth0)
                  else
                    (case Find pg (Key e) of
                       Inl err \<Rightarrow> Some (Inl err, t1)
                     | Inr (idx, childPageID) \<Rightarrow>
                         Option.bind (tree_insert P t1 childPageID e (depth0 + 1))
                           (\<lambda>r. case r of
                                   (Inl err, t2) \<Rightarrow> Some (Inl err, t2)
                                 | (Inr res, t2) \<Rightarrow> Some (insert_after P t2 newPageID0 idx res))))))"

text \<open>
  The end of \<^verbatim>\<open>Insert\<close>, after \<^verbatim>\<open>t.insert\<close> has returned \<open>res\<close> without an error: a new
  root when the old one was split, the new root id, the new root timestamp.
\<close>

definition Insert_after :: "pkg \<Rightarrow> TBTree \<Rightarrow> Entry \<Rightarrow> insertResult \<Rightarrow> error option \<times> TBTree" where
  "Insert_after P t e res =
     (case (if split res then
              (let t1 = t\<lparr>nSplits := nSplits t + 1, depth := depth t + 1\<rparr>
               in case AllocInnerPage (wb t1) of
                    Inl err \<Rightarrow> (Some err, t1)
                  | Inr (newRootID, w) \<Rightarrow>
                      let t2 = t1\<lparr>wb := w\<rparr>
                      in (case sepKey (wb t2) res of
                            Inl p \<Rightarrow> (Some p, t2)
                          | Inr k \<Rightarrow>
                              (case InsertKey P newInnerPage k (splitPageID res) of
                                 Inl err \<Rightarrow> (Some err, t2)
                               | Inr (_, newRootNode) \<Rightarrow>
                                   (case SetPageID newRootNode 0 (newPageID res) of
                                      Inl p \<Rightarrow> (Some p, t2)
                                    | Inr newRootNode' \<Rightarrow>
                                        (None,
                                         t2\<lparr>wb := wb_store w newRootID (MemPage (SetAsRoot newRootNode')),
                                            rootID := newRootID\<rparr>)))))
            else (None, t\<lparr>rootID := newPageID res\<rparr>)) of
        (Some err, t') \<Rightarrow> (Some err, t')
      | (None, t') \<Rightarrow> (None, t'\<lparr>rootTs := eTs e, mutated := True\<rparr>))"

text \<open>
  \<^verbatim>\<open>func (t *TBTree) Insert(e Entry) error\<close>. The result is the returned error and the
  tree afterwards, or \<open>None\<close> when \<^verbatim>\<open>t.insert\<close> does not return.
\<close>

definition Insert :: "pkg \<Rightarrow> TBTree \<Rightarrow> Entry \<Rightarrow> (error option \<times> TBTree) option" where
  "Insert P t e =
     (if eTs e = 0 then Some (Some ErrInvalidTimestamp, t)
      else if eTs e < tree_Ts t then Some (Some ErrInvalidTimestamp, t)
      else if mtx_held t then Some (Some ErrTreeLocked, t)
      else if \<not> canAccommodateWrite t then Some (Some ErrWriteBufferFull, t)
      else
        Option.bind (tree_insert P t (rootPageID t) e 0)
          (\<lambda>r. case r of
                  (Inl err, t1) \<Rightarrow> Some (Some err, t1)
                | (Inr res, t1) \<Rightarrow> Some (Insert_after P t1 e res)))"

section \<open>Snapshots and reads\<close>

text \<open>Modelled from the spec: \<^verbatim>\<open>newReadSnapshot\<close> and \<^verbatim>\<open>Snapshot.Close\<close> are declared
  outside tbtree.go. A read snapshot is the pair of a persisted root and a timestamp;
  it is counted in \<^verbatim>\<open>snapshotCount\<close> while it is open.\<close>

definition newReadSnapshot :: "TBTree \<Rightarrow> PageID \<Rightarrow> u64 \<Rightarrow> (error + Snapshot) \<times> TBTree" where
  "newReadSnapshot t root ts =
     (Inr \<lparr>snap_rootID = root, snap_ts = ts, snap_write = False\<rparr>,
      t\<lparr>snapshotCount := snapshotCount t + 1\<rparr>)"

definition snap_Close :: "TBTree \<Rightarrow> TBTree" where
  "snap_Close t = t\<lparr>snapshotCount := snapshotCount t - 1\<rparr>"

text \<open>\<^verbatim>\<open>func (t *TBTree) snapshot() (Snapshot, error)\<close>\<close>

definition snapshot :: "TBTree \<Rightarrow> (error + Snapshot) \<times> TBTree" where
  "snapshot t =
     (let ts = lastSnapshotTs t;
          snapRootID = lastSnapshotRootID t
      in if snapRootID = PageNone then (Inl ErrNoSnapshotAvailable, t)
         else if isMemPage snapRootID then (Inl (PanicAssert ''should not be a mem page''), t)
         else newReadSnapshot t snapRootID ts)"

text \<open>\<^verbatim>\<open>func (t *TBTree) ReadSnapshot() (Snapshot, error)\<close>\<close>

definition ReadSnapshot :: "TBTree \<Rightarrow> (error + Snapshot) \<times> TBTree" where
  "ReadSnapshot t = snapshot t"

text \<open>\<^verbatim>\<open>func (t *TBTree) GetBetween(key []byte, initialTs, finalTs uint64)\<close>; the deferred
  \<^verbatim>\<open>snap.Close()\<close> runs after the read.\<close>

definition GetBetween :: "pkg \<Rightarrow> TBTree \<Rightarrow> byte list \<Rightarrow> u64 \<Rightarrow> u64
    \<Rightarrow> (error + (byte list \<times> u64 \<times> u64)) \<times> TBTree" where
  "GetBetween P t k initialTs finalTs =
     (case ReadSnapshot t of
        (Inl err, t1) \<Rightarrow> (Inl err, t1)
      | (Inr snap, t1) \<Rightarrow> (snap_GetBetween P t1 snap k initialTs finalTs, snap_Close t1))"

text \<open>\<^verbatim>\<open>func (t *TBTree) History(key []byte, offset uint64, descOrder bool, limit int)\<close>\<close>

definition History :: "pkg \<Rightarrow> TBTree \<Rightarrow> byte list \<Rightarrow> u64 \<Rightarrow> bool \<Rightarrow> int
    \<Rightarrow> (error + (TimedValue list \<times> u64)) \<times> TBTree" where
  "History P t k offset descOrder limit =
     (case ReadSnapshot t of
        (Inl err, t1) \<Rightarrow>
          if err = ErrNoSnapshotAvailable then (Inl ErrKeyNotFound, t1) else (Inl err, t1)
      | (Inr snap, t1) \<Rightarrow> (snap_History P t1 snap k offset descOrder limit, snap_Close t1))"

section \<open>Flush\<close>

text \<open>
  \<^verbatim>\<open>func (t *TBTree) appendPage(pg *Page, tlog appendable.Appendable)
  (int, PageID, error)\<close>. The buffer is \<open>PageSize\<close> zero bytes; \<^verbatim>\<open>Put\<close> fills it and returns
  \<open>n\<close>; the bytes appended are \<^verbatim>\<open>buf[:n]\<close> (a panic when \<open>n\<close> exceeds the buffer); the
  page id is \<^verbatim>\<open>PageID(writeOffset) + PageID(n)\<close>. The result is \<open>n\<close>, the page id and the
  log afterwards.
\<close>

definition appendPage :: "pkg \<Rightarrow> Page \<Rightarrow> appendable \<Rightarrow> error + (nat \<times> PageID \<times> appendable)" where
  "appendPage P pg tlog =
     (case app_Size tlog of
        Inl err \<Rightarrow> Inl err
      | Inr writeOffset \<Rightarrow>
          (case Put P pg (replicate PageSize 0) of
             (n, buf) \<Rightarrow>
               if PageSize < n then Inl PanicOutOfRange
               else
                 (case app_Append tlog (take n buf) of
                    Inl err \<Rightarrow> Inl err
                  | Inr (_, _, tlog') \<Rightarrow> Inr (n, of_int writeOffset + of_nat n, tlog'))))"

text \<open>
  \<^verbatim>\<open>func (t *TBTree) getWritePage(pgID PageID) (*Page, error)\<close>. The pointer it returns
  is either a page of the write buffer, which later writes change in place, or a copy
  local to the caller.
\<close>

datatype pageref = MemRef PageID | CopyRef Page

definition getWritePage :: "pkg \<Rightarrow> TBTree \<Rightarrow> PageID \<Rightarrow> error + pageref" where
  "getWritePage P t pgID =
     (if isMemPage pgID then
        (case wb_Get (wb t) pgID of Inl err \<Rightarrow> Inl err | Inr _ \<Rightarrow> Inr (MemRef pgID))
      else
        (case pgBuf_Get P t pgID of Inl err \<Rightarrow> Inl err | Inr pg \<Rightarrow> Inr (CopyRef pg)))"

definition deref :: "TBTree \<Rightarrow> pageref \<Rightarrow> error + Page" where
  "deref t r = (case r of MemRef pgid \<Rightarrow> wb_Get (wb t) pgid | CopyRef pg \<Rightarrow> Inr pg)"

definition assign :: "TBTree \<Rightarrow> pageref \<Rightarrow> Page \<Rightarrow> TBTree \<times> pageref" where
  "assign t r pg =
     (case r of
        MemRef pgid \<Rightarrow> (t\<lparr>wb := wb_store (wb t) pgid (MemPage pg)\<rparr>, r)
      | CopyRef _ \<Rightarrow> (t, CopyRef pg))"

text \<open>\<^verbatim>\<open>type flushRes struct\<close>, \<^verbatim>\<open>type flushOptions struct\<close>. The destination log
  \<^verbatim>\<open>dstApp\<close> is passed along with the tree; \<^verbatim>\<open>flushToTreeLog\<close> passes the tree's own log,
  whose pages up to its old size are what reads of persisted pages see.\<close>

record flushRes =
  pagesFlushed :: nat
  bytesWritten :: nat
  res_rootID :: PageID
  res_stalePages :: u32

record flushOptions =
  fullDump :: bool

text \<open>
  \<^verbatim>\<open>func (t *TBTree) flushTreeLog(pageID PageID, opts flushOptions) (flushRes, error)\<close>.
  The function and its loop over the children are one recursive definition:
  \<open>FlushPage pageID\<close> is a call of \<^verbatim>\<open>flushTreeLog\<close>, and \<open>FlushChildren pg i acc\<close> is the
  loop \<^verbatim>\<open>for i := 0; i < int(pg.NumEntries); i++\<close> at index \<open>i\<close>, with the sums so far in
  \<open>acc\<close>. The recursion follows the child ids, so nothing bounds it: \<open>None\<close> is a call
  that does not return.
\<close>

datatype flushWork = FlushPage PageID | FlushChildren pageref nat flushRes

partial_function (option) flushTreeLog_work :: "pkg \<Rightarrow> flushOptions \<Rightarrow> flushWork
    \<Rightarrow> TBTree \<times> appendable \<Rightarrow> ((error + flushRes \<times> pageref) \<times> TBTree \<times> appendable) option" where
  "flushTreeLog_work P opts work s =
     (case work of
        FlushPage pageID \<Rightarrow>
          (let isMem = isMemPage pageID
           in if \<not> isMem \<and> \<not> fullDump opts then Some (Inl ErrFlushNonMemPage, s)
              else
                (case getWritePage P (fst s) pageID of
                   Inl err \<Rightarrow> Some (Inl err, s)
                 | Inr pgref \<Rightarrow>
                     (case deref (fst s) pgref of
                        Inl err \<Rightarrow> Some (Inl err, s)
                      | Inr pg \<Rightarrow>
                          if IsLeaf pg then
                            (case appendPage P pg (snd s) of
                               Inl err \<Rightarrow> Some (Inl err, s)
                             | Inr (n, pgID, dst') \<Rightarrow>
                                 Some (Inr (\<lparr>pagesFlushed = 1, bytesWritten = n, res_rootID = pgID,
                                             res_stalePages = (if isMem \<and> IsCopied pg then 1 else 0)\<rparr>,
                                            pgref),
                                       fst s, dst'))
                          else
                            Option.bind
                              (flushTreeLog_work P opts
                                 (FlushChildren pgref 0
                                    \<lparr>pagesFlushed = 0, bytesWritten = 0, res_rootID = 0,
                                     res_stalePages = 0\<rparr>) s)
                              (\<lambda>r. case r of
                                 (Inl err, s') \<Rightarrow> Some (Inl err, s')
                               | (Inr (acc, pgref'), s') \<Rightarrow>
                                   (case deref (fst s') pgref' of
                                      Inl err \<Rightarrow> Some (Inl err, s')
                                    | Inr pg' \<Rightarrow>
                                        (case appendPage P pg' (snd s') of
                                           Inl err \<Rightarrow> Some (Inl err, s')
                                         | Inr (n, pgID, dst') \<Rightarrow>
                                             Some (Inr (\<lparr>pagesFlushed = pagesFlushed acc + 1,
                                                         bytesWritten = bytesWritten acc + n,
                                                         res_rootID = pgID,
                                                         res_stalePages = res_stalePages acc
                                                           + (if isMem \<and> IsCopied pg' then 1 else 0)\<rparr>,
                                                        pgref'),
                                                   fst s', dst')))))))
      | FlushChildren pgref i acc \<Rightarrow>
          (case deref (fst s) pgref of
             Inl err \<Rightarrow> Some (Inl err, s)
           | Inr pg \<Rightarrow>
               if \<not> i < NumEntries pg then Some (Inr (acc, pgref), s)
               else
                 (case ChildPageAt pg i of
                    Inl err \<Rightarrow> Some (Inl err, s)
                  | Inr childPageID \<Rightarrow>
                      if \<not> isMemPage childPageID \<and> \<not> fullDump opts
                      then flushTreeLog_work P opts (FlushChildren pgref (i + 1) acc) s
                      else
                        Option.bind (flushTreeLog_work P opts (FlushPage childPageID) s)
                          (\<lambda>r. case r of
                             (Inl err, s') \<Rightarrow> Some (Inl err, s')
                           | (Inr (res, _), s') \<Rightarrow>
                               (case deref (fst s') pgref of
                                  Inl err \<Rightarrow> Some (Inl err, s')
                                | Inr pg1 \<Rightarrow>
                                    (case SetPageID pg1 i (res_rootID res) of
                                       Inl err \<Rightarrow> Some (Inl err, s')
                                     | Inr pg2 \<Rightarrow>
                                         (case assign (fst s') pgref pg2 of
                                            (t2, pgref2) \<Rightarrow>
                                              flushTreeLog_work P opts
                                                (FlushChildren pgref2 (i + 1)
                                                   \<lparr>pagesFlushed = pagesFlushed acc + pagesFlushed res,
                                                    bytesWritten = bytesWritten acc + bytesWritten res,
                                                    res_rootID = 0,
                                                    res_stalePages = res_stalePages acc + res_stalePages res\<rparr>)
                                                (t2, snd s'))))))))"

definition flushTreeLog :: "pkg \<Rightarrow> TBTree \<Rightarrow> PageID \<Rightarrow> flushOptions \<Rightarrow> appendable
    \<Rightarrow> ((error + flushRes) \<times> TBTree \<times> appendable) option" where
  "flushTreeLog P t pageID opts dstApp =
     map_option (\<lambda>(r, s). (case r of Inl err \<Rightarrow> Inl err | Inr (res, _) \<Rightarrow> Inr res, s))
       (flushTreeLog_work P opts (FlushPage pageID) (t, dstApp))"

text \<open>
  \<^verbatim>\<open>func (t *TBTree) flushHistory() (int, uint32, uint64, error)\<close>: first the loop along
  the chain of history pages (\<open>None\<close> when it does not end), with the last data written,
  the offset of the last append and the number of bytes so far; then the function.
\<close>

partial_function (option) flushHistory_loop :: "TBTree \<Rightarrow> PageID \<Rightarrow> byte list \<times> int \<times> nat
    \<Rightarrow> ((error + byte list \<times> int \<times> nat) \<times> TBTree) option" where
  "flushHistory_loop t currPage acc =
     (if currPage = PageNone then Some (Inr acc, t)
      else
        (case wb_GetHistoryPage (wb t) currPage of
           Inl err \<Rightarrow> Some (Inl err, t)
         | Inr hp \<Rightarrow>
             let data = hpData hp
             in (case app_Append (historyApp t) data of
                   Inl err \<Rightarrow> Some (Inl err, t)
                 | Inr (lastEntryOff, _, ha) \<Rightarrow>
                     flushHistory_loop (t\<lparr>historyApp := ha\<rparr>) (NextPageID hp)
                       (data, lastEntryOff, snd (snd acc) + length data))))"

definition flushHistory :: "TBTree \<Rightarrow> ((error + nat \<times> u32 \<times> u64) \<times> TBTree) option" where
  "flushHistory t =
     (let currPage = headHistoryPageID t
      in if currPage = PageNone then Some (Inr (0, 0, 0), t)
         else
           Option.bind (flushHistory_loop t currPage ([], 0, 0))
             (\<lambda>r. case r of
                (Inl err, t1) \<Rightarrow> Some (Inl err, t1)
              | (Inr (lastWrittenEntry, lastEntryOff, n), t1) \<Rightarrow>
                  let t2 = t1\<lparr>headHistoryPageID := PageNone\<rparr>
                  in (case app_Flush (historyApp t2) of
                        Some err \<Rightarrow> Some (Inl err, t2)
                      | None \<Rightarrow>
                          Some (Inr (n, computeChecksum lastWrittenEntry, of_int lastEntryOff), t2))))"

text \<open>\<^verbatim>\<open>func (t *TBTree) flushTo(dstApp appendable.Appendable) (int, flushRes, error)\<close>\<close>

definition flushTo :: "pkg \<Rightarrow> TBTree \<Rightarrow> appendable
    \<Rightarrow> ((error + nat \<times> flushRes) \<times> TBTree \<times> appendable) option" where
  "flushTo P t dstApp =
     Option.bind (flushHistory t)
       (\<lambda>r. case r of
          (Inl err, t1) \<Rightarrow> Some (Inl err, t1, dstApp)
        | (Inr (hLogBytesWritten, hlogLastEntryChecksum, hLogLastEntryOff), t1) \<Rightarrow>
            Option.bind (flushTreeLog P t1 (rootPageID t1) \<lparr>fullDump = False\<rparr> dstApp)
              (\<lambda>r'. case r' of
                 (Inl err, t2, dst2) \<Rightarrow> Some (Inl err, t2, dst2)
               | (Inr res, t2, dst2) \<Rightarrow>
                   let t3 = t2\<lparr>stalePages := stalePages t2 + res_stalePages res,
                               numPages := numPages t2 + of_nat (pagesFlushed res)\<rparr>;
                       ts = tree_Ts t3;
                       commitEntry = \<lparr>Checksum = 0, Ts = ts,
                                      HLogLastEntryOff = hLogLastEntryOff,
                                      HLogLastEntryChecksum = hlogLastEntryChecksum,
                                      TotalPages = of_nat (pagesFlushed res),
                                      StalePages = stalePages t3,
                                      IndexedEntryCount = indexedEntryCount t3\<rparr>
                   in (case commit P commitEntry dst2 of
                         (Some err, dst3) \<Rightarrow> Some (Inl err, t3, dst3)
                       | (None, dst3) \<Rightarrow> Some (Inr (hLogBytesWritten, res), t3, dst3))))"

text \<open>
  \<^verbatim>\<open>func (t *TBTree) maybeSync(n uint32)\<close>. Past the threshold the function starts a
  goroutine that syncs both logs and resets the counter; syncing changes durability
  only, and the model takes the goroutine as having run.
\<close>

definition maybeSync :: "TBTree \<Rightarrow> u32 \<Rightarrow> TBTree" where
  "maybeSync t n =
     (if unsyncedBytes t + n < of_nat (syncThld t) then t\<lparr>unsyncedBytes := unsyncedBytes t + n\<rparr>
      else t\<lparr>unsyncedBytes := 0\<rparr>)"

text \<open>\<^verbatim>\<open>func (t *TBTree) flushToTreeLog() error\<close>. What \<^verbatim>\<open>flushTo\<close> appended to the
  destination is in the tree log whether or not it failed later.\<close>

definition flushToTreeLog :: "pkg \<Rightarrow> TBTree \<Rightarrow> (error option \<times> TBTree) option" where
  "flushToTreeLog P t =
     (if \<not> mutated t then Some (None, t)
      else
        Option.bind (flushTo P t (treeApp t))
          (\<lambda>r. case r of
             (Inl err, t1, dst) \<Rightarrow> Some (Some err, t1\<lparr>treeApp := dst\<rparr>)
           | (Inr (hLogBytesWritten, res), t1, dst) \<Rightarrow>
               let t2 = t1\<lparr>treeApp := dst,
                           rootID := res_rootID res,
                           lastSnapshotID := res_rootID res,
                           lastSnapshotTs := tree_Ts t1,
                           headHistoryPageID := PageNone,
                           tailHistoryPageID := PageNone,
                           mutated := False\<rparr>
               in Some (None, maybeSync t2 (of_nat (bytesWritten res + hLogBytesWritten)))))"

text \<open>\<^verbatim>\<open>func (t *TBTree) Flush() error\<close>, \<^verbatim>\<open>func (t *TBTree) TryFlush() error\<close>\<close>

definition Flush :: "pkg \<Rightarrow> TBTree \<Rightarrow> (error option \<times> TBTree) option" where
  "Flush P t = flushToTreeLog P t"

definition TryFlush :: "pkg \<Rightarrow> TBTree \<Rightarrow> (error option \<times> TBTree) option" where
  "TryFlush P t = (if mtx_held t then Some (Some ErrTreeLocked, t) else flushToTreeLog P t)"

section \<open>Snapshots at a timestamp\<close>

text \<open>
  \<^verbatim>\<open>func (t *TBTree) ensureLatestSnapshotContainsTs(ctx context.Context, ts uint64)
  (PageID, uint64, error)\<close>. The body does not use \<^verbatim>\<open>ctx\<close>.
\<close>

definition ensureLatestSnapshotContainsTs :: "pkg \<Rightarrow> TBTree \<Rightarrow> u64
    \<Rightarrow> ((error + PageID \<times> u64) \<times> TBTree) option" where
  "ensureLatestSnapshotContainsTs P t ts =
     (let lastSnapRootID = lastSnapshotRootID t;
          flushNeeded = (lastSnapRootID = PageNone \<or> (0 < ts \<and> lastSnapshotTs t < ts))
      in if tree_Ts t < ts then Some (Inl ErrStaleRootTimestamp, t)
         else if flushNeeded then
           Option.bind (flushToTreeLog P t)
             (\<lambda>r. case r of
                (Some err, t1) \<Rightarrow> Some (Inl err, t1)
              | (None, t1) \<Rightarrow> Some (Inr (lastSnapshotRootID t1, lastSnapshotTs t1), t1))
         else Some (Inr (lastSnapshotRootID t, lastSnapshotTs t), t))"

text \<open>\<^verbatim>\<open>func (t *TBTree) SnapshotAtTs(ctx context.Context, ts uint64) (Snapshot, error)\<close>\<close>

definition SnapshotAtTs :: "pkg \<Rightarrow> TBTree \<Rightarrow> u64 \<Rightarrow> ((error + Snapshot) \<times> TBTree) option" where
  "SnapshotAtTs P t ts =
     Option.bind (ensureLatestSnapshotContainsTs P t ts)
       (\<lambda>r. case r of
          (Inl err, t1) \<Rightarrow> Some (Inl err, t1)
        | (Inr (snapRootID, snapTs), t1) \<Rightarrow>
            let snapAtTs = (if ts = 0 then snapTs else ts)
            in Some (newReadSnapshot t1 snapRootID snapAtTs))"

text \<open>\<^verbatim>\<open>func (t *TBTree) SnapshotMustIncludeTs(ctx context.Context, ts uint64)
  (Snapshot, error)\<close>\<close>

definition SnapshotMustIncludeTs :: "pkg \<Rightarrow> TBTree \<Rightarrow> u64 \<Rightarrow> ((error + Snapshot) \<times> TBTree) option" where
  "SnapshotMustIncludeTs P t ts =
     Option.bind (ensureLatestSnapshotContainsTs P t ts)
       (\<lambda>r. case r of
          (Inl err, t1) \<Rightarrow> Some (Inl err, t1)
        | (Inr (snapRootID, snapTs), t1) \<Rightarrow> Some (newReadSnapshot t1 snapRootID snapTs))"

section \<open>An instance of the parameters\<close>

text \<open>
  To run the model on concrete inputs the parameters need values. The instance below
  is a page codec laid out as the spec describes a page. The head of a page is the
  header of 16 bytes (the type tag, the flags with the root bit and the copied bit, the
  number of entries, twelve reserved bytes) followed by the offset table, one
  big-endian \<open>u16\<close> for each item of the page; the tail holds the items, the first one
  at the very end of the page and the next ones before it. The items of a leaf are its
  entries (key length, key, value length, value, \<open>ts\<close>, \<open>hOff\<close>, \<open>hC\<close>); the items of an
  inner page are the left-most child id, in the first slot, and the pairs of separator
  and child id. A page has room for one more item while head, tail, the item and its
  offset fit \<open>PageSize\<close> bytes. \<^verbatim>\<open>Validate\<close> accepts every option set. The snapshot
  readers of the instance answer \<open>ErrKeyRevisionNotFound\<close> and an empty history: no input
  evaluated below reaches them, and no theorem about all parameters depends on them.
\<close>

definition ref_encodeEntry :: "Entry \<Rightarrow> byte list" where
  "ref_encodeEntry e =
     be16 (of_nat (length (Key e))) @ Key e @ be16 (of_nat (length (Value e))) @ Value e
       @ be64 (eTs e) @ be64 (HOff e) @ be64 (HC e)"

definition ref_encodeKey :: "byte list \<times> PageID \<Rightarrow> byte list" where
  "ref_encodeKey kc = be16 (of_nat (length (fst kc))) @ fst kc @ be64 (snd kc)"

definition ref_items :: "Page \<Rightarrow> byte list list" where
  "ref_items pg =
     (if IsLeaf pg then map ref_encodeEntry (leafEntries pg)
      else map be64 (take 1 (childIDs pg))
             @ map ref_encodeKey (zip (take (NumEntries pg) (innerKeys pg)) (drop 1 (childIDs pg))))"

definition ref_flags :: "Page \<Rightarrow> byte" where
  "ref_flags pg = (if IsRoot pg then 1 else 0) OR (if IsCopied pg then 2 else 0)"

definition ref_header :: "Page \<Rightarrow> byte list" where
  "ref_header pg =
     [if IsLeaf pg then 1 else 0, ref_flags pg] @ be16 (of_nat (NumEntries pg)) @ replicate 12 0"

text \<open>The offsets at which the items start, the first item ending at \<open>e\<close>.\<close>

fun ref_offsets :: "nat \<Rightarrow> byte list list \<Rightarrow> nat list" where
  "ref_offsets e [] = []"
| "ref_offsets e (x # xs) = (e - length x) # ref_offsets (e - length x) xs"

definition ref_pageHead :: "Page \<Rightarrow> byte list" where
  "ref_pageHead pg =
     ref_header pg @ concat (map (\<lambda>off. be16 (of_nat off)) (ref_offsets PageSize (ref_items pg)))"

definition ref_pageTail :: "Page \<Rightarrow> byte list" where
  "ref_pageTail pg = concat (rev (ref_items pg))"

definition ref_decodeEntry :: "byte list \<Rightarrow> Entry" where
  "ref_decodeEntry bs =
     (let kl = unat (Uint16 bs);
          r1 = drop (2 + kl) bs;
          vl = unat (Uint16 r1);
          r2 = drop (2 + vl) r1
      in \<lparr>Key = take kl (drop 2 bs), Value = take vl (drop 2 r1), eTs = Uint64 r2,
           HOff = Uint64 (drop 8 r2), HC = Uint64 (drop 16 r2)\<rparr>)"

definition ref_decodeKey :: "byte list \<Rightarrow> byte list \<times> PageID" where
  "ref_decodeKey bs =
     (let kl = unat (Uint16 bs) in (take kl (drop 2 bs), Uint64 (drop (2 + kl) bs)))"

text \<open>The bytes of a page image from the start of its \<open>i\<close>-th item on.\<close>

definition ref_item :: "byte list \<Rightarrow> nat \<Rightarrow> byte list" where
  "ref_item bs i = drop (unat (Uint16 (drop (16 + 2 * i) bs))) bs"

definition ref_PageFromBytes :: "byte list \<Rightarrow> Page" where
  "ref_PageFromBytes bs =
     (let leaf = (bs ! 0 = 1);
          fl = bs ! 1;
          n = unat (Uint16 (drop 2 bs));
          kcs = map (\<lambda>i. ref_decodeKey (ref_item bs i)) [1..<Suc n]
      in \<lparr>IsLeaf = leaf, IsRoot = bit fl 0, IsCopied = bit fl 1, NumEntries = n,
           leafEntries = (if leaf then map (\<lambda>i. ref_decodeEntry (ref_item bs i)) [0..<n] else []),
           innerKeys = (if leaf then [] else map fst kcs),
           childIDs = (if leaf then [] else Uint64 (ref_item bs 0) # map snd kcs)\<rparr>)"

definition ref_leafFits :: "Page \<Rightarrow> Entry \<Rightarrow> bool" where
  "ref_leafFits pg e \<longleftrightarrow>
     length (ref_pageHead pg) + length (ref_pageTail pg) + (2 + length (ref_encodeEntry e))
       \<le> PageSize"

definition ref_innerFits :: "Page \<Rightarrow> byte list \<Rightarrow> bool" where
  "ref_innerFits pg k \<longleftrightarrow>
     length (ref_pageHead pg) + length (ref_pageTail pg) + (2 + length (ref_encodeKey (k, 0)))
       \<le> PageSize"

definition ref_pkg :: pkg where
  "ref_pkg =
     \<lparr>CommitMagic = 0xC0DE,
      pageHead = ref_pageHead,
      pageTail = ref_pageTail,
      PageFromBytes = ref_PageFromBytes,
      expandToFixedPage = Some,
      leafFits = ref_leafFits,
      innerFits = ref_innerFits,
      Validate = (\<lambda>opts. None),
      snap_GetBetween = (\<lambda>t snap k initialTs finalTs. Inl ErrKeyRevisionNotFound),
      snap_History = (\<lambda>t snap k offset descOrder limit. Inr ([], 0))\<rparr>"

text \<open>An empty log, a write buffer with room for sixteen pages, and the options of a
  directory: what \<^verbatim>\<open>readDir\<close> lists and what \<^verbatim>\<open>appFactory\<close> opens.\<close>

definition emptyLog :: appendable where
  "emptyLog = \<lparr>app_data = [], app_closed = False\<rparr>"

definition dir_opts :: "DirEntry list \<Rightarrow> (string \<Rightarrow> error + appendable) \<Rightarrow> Options" where
  "dir_opts entries files =
     \<lparr>opt_readOnly = False, opt_maxActiveSnapshots = 100, opt_syncThld = 1048576,
      opt_wb = \<lparr>wb_slots = [], wb_max = 16\<rparr>,
      opt_readDir = (\<lambda>dir. Inr entries),
      opt_appFactory = (\<lambda>rootPath subPath. files subPath),
      opt_appRemove = (\<lambda>rootPath subPath. None)\<rparr>"

text \<open>Three environments: a directory in which every log is empty; one in which the
  snapshot \<open>tree_5\<close> cannot be opened; a listing of two snapshots in the order of
  \<^verbatim>\<open>os.ReadDir\<close>. \<open>record_tried\<close> is a \<^verbatim>\<open>recoverSnap\<close> that recovers every snapshot and
  records which ones it was asked for.\<close>

definition empty_files :: "string \<Rightarrow> error + appendable" where
  "empty_files subPath = Inr emptyLog"

definition tree_5_fails :: "string \<Rightarrow> error + appendable" where
  "tree_5_fails subPath =
     (if subPath = ''tree_5'' then Inl (ErrIO ''open failed'') else Inr emptyLog)"

definition list_1_2 :: "string \<Rightarrow> error + DirEntry list" where
  "list_1_2 dir = Inr [\<lparr>Name = ''tree_1'', IsDir = True\<rparr>, \<lparr>Name = ''tree_2'', IsDir = True\<rparr>]"

definition record_tried :: "string \<Rightarrow> u64 \<Rightarrow> (string \<times> u64) list
    \<Rightarrow> error option \<times> (string \<times> u64) list" where
  "record_tried snapPath snapTs tried = (None, tried @ [(snapPath, snapTs)])"

text \<open>A run of \<^verbatim>\<open>Insert\<close> calls, stopping at the first that fails.\<close>

fun Inserts :: "pkg \<Rightarrow> TBTree \<Rightarrow> Entry list \<Rightarrow> (error option \<times> TBTree) option" where
  "Inserts P t [] = Some (None, t)"
| "Inserts P t (e # es) =
     (case Insert P t e of
        None \<Rightarrow> None
      | Some (Some err, t') \<Rightarrow> Some (Some err, t')
      | Some (None, t') \<Rightarrow> Inserts P t' es)"

text \<open>The tree that \<^verbatim>\<open>Open\<close> returns for an empty directory, and the three entries of
  key \<open>"a"\<close> with the values \<open>"1"\<close>, \<open>"2"\<close>, \<open>"3"\<close> at the timestamps 1, 2, 3.\<close>

definition emptyTree :: TBTree where
  "emptyTree =
     \<lparr>path = ''idx'', mtx_held = False, mutated = False, wb = \<lparr>wb_slots = [], wb_max = 16\<rparr>,
      rootID = PageNone, lastSnapshotID = PageNone, rootTs = 0, lastSnapshotTs = 0,
      indexedEntryCount = 0, headHistoryPageID = PageNone, tailHistoryPageID = PageNone,
      bufferedHistoryData = 0, treeApp = emptyLog, historyApp = emptyLog,
      numPages = 0, stalePages = 0, nSplits = 0, depth = 0, snapshotCount = 0,
      maxActiveSnapshots = 100, syncThld = 1048576, unsyncedBytes = 0, readOnly = False\<rparr>"

definition entry_a :: "byte \<Rightarrow> u64 \<Rightarrow> Entry" where
  "entry_a v ts = \<lparr>Key = [0x61], Value = [v], eTs = ts, HOff = 0, HC = 0\<rparr>"

definition leaf_a :: "byte \<Rightarrow> u64 \<Rightarrow> u64 \<Rightarrow> u64 \<Rightarrow> Page" where
  "leaf_a v ts hoff hc =
     \<lparr>IsLeaf = True, IsRoot = True, IsCopied = False, NumEntries = 1,
      leafEntries = [\<lparr>Key = [0x61], Value = [v], eTs = ts, HOff = hoff, HC = hc\<rparr>],
      innerKeys = [], childIDs = []\<rparr>"

text \<open>The trees after the first, the second and the third of these inserts: the root is
  an in-memory leaf with the newest version of \<open>"a"\<close>, and the older versions are in an
  in-memory history page.\<close>

definition tree_a1 :: TBTree where
  "tree_a1 = emptyTree\<lparr>mutated := True,
       wb := \<lparr>wb_slots = [MemPage (leaf_a 0x31 1 OffsetNone 0)], wb_max = 16\<rparr>,
       rootID := memPageID 0, rootTs := 1, depth := 1\<rparr>"

definition tree_a2 :: TBTree where
  "tree_a2 = emptyTree\<lparr>mutated := True,
       wb := \<lparr>wb_slots = [MemPage (leaf_a 0x32 2 0 1),
                 MemHistoryPage
                   \<lparr>hpData = encodeHistoryEntry \<lparr>PrevOffset = OffsetNone, hTs = 1, hValue = [0x31]\<rparr>,
                    NextPageID = PageNone\<rparr>],
               wb_max = 16\<rparr>,
       rootID := memPageID 0, rootTs := 2, depth := 0,
       headHistoryPageID := memPageID 1, tailHistoryPageID := memPageID 1,
       bufferedHistoryData := 19\<rparr>"

definition tree_a3 :: TBTree where
  "tree_a3 = emptyTree\<lparr>mutated := True,
       wb := \<lparr>wb_slots = [MemPage (leaf_a 0x33 3 19 2),
                 MemHistoryPage
                   \<lparr>hpData = encodeHistoryEntry \<lparr>PrevOffset = OffsetNone, hTs = 1, hValue = [0x31]\<rparr>
                             @ encodeHistoryEntry \<lparr>PrevOffset = 0, hTs = 2, hValue = [0x32]\<rparr>,
                    NextPageID = PageNone\<rparr>],
               wb_max = 16\<rparr>,
       rootID := memPageID 0, rootTs := 3, depth := 0,
       headHistoryPageID := memPageID 1, tailHistoryPageID := memPageID 1,
       bufferedHistoryData := 38\<rparr>"

text \<open>A commit entry, and the 42 bytes that \<^verbatim>\<open>putCommitEntry\<close> writes for it when the magic
  is that of the instance.\<close>

definition entry_7 :: CommitEntry where
  "entry_7 = \<lparr>Checksum = 0, Ts = 7, HLogLastEntryOff = 100, HLogLastEntryChecksum = 5,
              TotalPages = 3, StalePages = 1, IndexedEntryCount = 9\<rparr>"

definition entry_7_bytes :: "byte list" where
  "entry_7_bytes =
     [0xAD, 0x7F, 0x19, 0x39,
      0, 0, 0, 0, 0, 0, 0, 7,
      0, 0, 0, 0, 0, 0, 0, 100,
      0, 0, 0, 5,
      0, 0, 0, 0, 0, 0, 0, 3,
      0, 0, 0, 1,
      0, 0, 0, 9,
      0xC0, 0xDE]"

section \<open>What an insert leaves alone\<close>

text \<open>The part of a tree that only a flush or a recovery writes: the last snapshot and the
  two logs. \<open>benign\<close> says of a result that it is not \<open>ErrInvalidTimestamp\<close>.\<close>

definition persisted :: "TBTree \<Rightarrow> PageID \<times> u64 \<times> appendable \<times> appendable" where
  "persisted t = (lastSnapshotID t, lastSnapshotTs t, treeApp t, historyApp t)"

definition benign :: "error + 'a \<Rightarrow> bool" where
  "benign r \<longleftrightarrow> r \<noteq> Inl ErrInvalidTimestamp"

section \<open>The commit entry codec\<close>

lemma Uint16_be16: "Uint16 (be16 v @ r) = v"
  unfolding Uint16_def be16_def
  by (rule bit_word_eqI) (auto simp: bit_simps nth_append not_less le_diff_conv2)

lemma Uint32_be32: "Uint32 (be32 v @ r) = v"
  unfolding Uint32_def be32_def
  apply (rule bit_word_eqI)
  apply (simp add: bit_simps nth_append cong: conj_cong)
  subgoal for n
    apply (cases "n < 8", force)
    apply (cases "n < 16", force)
    apply (cases "n < 24", force)
    apply force
    done
  done

lemma Uint64_be64: "Uint64 (be64 v @ r) = v"
  unfolding Uint64_def be64_def
  apply (rule bit_word_eqI)
  apply (simp add: bit_simps nth_append cong: conj_cong)
  subgoal for n
    apply (cases "n < 8", force)
    apply (cases "n < 16", force)
    apply (cases "n < 24", force)
    apply (cases "n < 32", force)
    apply (cases "n < 40", force)
    apply (cases "n < 48", force)
    apply (cases "n < 56", force)
    apply force
    done
  done

lemma Uint16_be16_only: "Uint16 (be16 v) = v"
  using Uint16_be16 [of v "[]"] by simp

lemma Uint64_be64_only: "Uint64 (be64 v) = v"
  using Uint64_be64 [of v "[]"] by simp

lemma length_be [simp]: "length (be16 a) = 2" "length (be32 b) = 4" "length (be64 c) = 8"
  by (simp_all add: be16_def be32_def be64_def)

lemma length_commitEntryBody [simp]: "length (commitEntryBody e m) = 38"
  by (simp add: commitEntryBody_def)

lemma putCommitEntry_layout:
  assumes "length buf0 = CommitEntrySize"
  shows "putCommitEntry P e buf0 =
           Inr (be32 (computeChecksum (commitEntryBody e (CommitMagic P)))
                  @ commitEntryBody e (CommitMagic P))"
  using assms
  unfolding putCommitEntry_def CommitEntrySize_def CommitMagicSize_def ChecksumSize_def Let_def
  apply (simp only: add_0 numeral_plus_numeral arith_simps)
  apply (simp add: PutUint32_def[of _ 0])
  apply (simp add: PutUint64_def)
  apply (simp add: PutUint32_def PutUint16_def)
  apply (simp only: commitEntryBody_def)
  done

lemma readCommitEntry_layout:
  "readCommitEntry (be32 (computeChecksum (commitEntryBody e m)) @ commitEntryBody e m) =
     Inr (e\<lparr>Checksum := computeChecksum (commitEntryBody e m)\<rparr>)"
  unfolding readCommitEntry_def CommitEntrySize_def CommitMagicSize_def ChecksumSize_def Let_def
  apply (simp only: add_0 numeral_plus_numeral arith_simps)
  apply (simp add: Uint32_be32)
  apply (simp only: commitEntryBody_def)
  apply (simp add: Uint64_be64 Uint32_be32)
  done

section \<open>The checksum is CRC-32C\<close>

text \<open>The checksum of the source, which works on the reflected register with the
  reflected polynomial, a byte at a time, agrees with the CRC-32C of the standard
  parametrisation on every input. Reversing the register turns a shift to the left into
  a shift to the right, and folding the eight message bits in one by one is the same as
  folding the byte in at once.\<close>

lemma word_reverse_xor: "word_reverse (a XOR b) = word_reverse a XOR word_reverse (b :: u32)"
  by (rule bit_word_eqI) (simp add: bit_simps)

lemma word_reverse_push_bit:
  "word_reverse (push_bit n (r :: u32)) = drop_bit n (word_reverse r)"
proof (rule bit_word_eqI)
  fix m :: nat
  assume "m < LENGTH(32)"
  then have m: "m < 32" by simp
  have "n \<le> 31 - m \<longleftrightarrow> n + m < 32" using m by arith
  moreover have "31 - m - n = 31 - (n + m)" by arith
  ultimately show "bit (word_reverse (push_bit n r)) m \<longleftrightarrow> bit (drop_bit n (word_reverse r)) m"
    using m by (auto simp add: bit_simps)
qed

lemma word_reverse_double: "word_reverse ((r :: u32) * 2) = drop_bit (Suc 0) (word_reverse r)"
  using word_reverse_push_bit [of 1 r] by simp

lemma bit_word_reverse_0: "bit (word_reverse (r :: u32)) 0 = bit r 31"
  by (simp add: bit_simps)

lemma word_reverse_castagnoli: "word_reverse (0x1EDC6F41 :: u32) = 0x82F63B78"
  by code_simp

lemma word_reverse_ones: "word_reverse (0xFFFFFFFF :: u32) = 0xFFFFFFFF"
  by code_simp

lemma reverse_shift_in: "word_reverse (crc_shift_in r x) = crc32c_bit (word_reverse r) x"
  by (simp add: crc_shift_in_def crc32c_bit_def word_reverse_xor word_reverse_double
      bit_word_reverse_0 word_reverse_castagnoli)

lemma crc32c_step_xor:
  assumes "k < 8"
  shows "crc32c_step (d XOR drop_bit k (ucast (b :: byte)))
           = crc32c_bit d (bit b k) XOR drop_bit (Suc k) (ucast b)"
proof -
  have b0: "bit (d XOR drop_bit k (ucast b :: u32)) 0 \<longleftrightarrow> (bit d 0 \<noteq> bit b k)"
    using assms by (simp add: bit_simps)
  have sh: "drop_bit 1 (d XOR drop_bit k (ucast b :: u32))
              = drop_bit 1 d XOR drop_bit (Suc k) (ucast b)"
    by (rule bit_word_eqI) (simp add: bit_simps)
  show ?thesis
    unfolding crc32c_step_def crc32c_bit_def b0 sh
    by (simp add: xor.assoc xor.commute xor.left_commute)
qed

lemma crc32c_steps_xor:
  "k \<le> 8 \<Longrightarrow> (crc32c_step ^^ k) (c XOR ucast (b :: byte))
     = foldl crc32c_bit c (map (bit b) [0..<k]) XOR drop_bit k (ucast b)"
proof (induction k)
  case 0
  then show ?case by simp
next
  case (Suc k)
  then have "k < 8" and "k \<le> 8" by simp_all
  with Suc.IH crc32c_step_xor [OF \<open>k < 8\<close>] show ?case by simp
qed

lemma drop_bit_8_byte: "drop_bit 8 (ucast (b :: byte) :: u32) = 0"
  by (rule bit_word_eqI) (auto simp add: bit_simps dest: bit_imp_le_length)

lemma crc32c_byte_bits: "crc32c_byte c b = foldl crc32c_bit c (map (bit b) [0..<8])"
  unfolding crc32c_byte_def using crc32c_steps_xor [of 8 c b] by (simp add: drop_bit_8_byte)

lemma reverse_foldl_in:
  "word_reverse (foldl crc_shift_in r xs) = foldl crc32c_bit (word_reverse r) xs"
  by (induction xs arbitrary: r) (simp_all add: reverse_shift_in)

lemma reverse_shift_byte: "word_reverse (crc_shift_byte r b) = crc32c_byte (word_reverse r) b"
  by (simp add: crc_shift_byte_def crc32c_byte_bits reverse_foldl_in)

lemma reverse_foldl_byte:
  "word_reverse (foldl crc_shift_byte r data) = foldl crc32c_byte (word_reverse r) data"
  by (induction data arbitrary: r) (simp_all add: reverse_shift_byte)

lemma computeChecksum_castagnoli: "computeChecksum data = crc32_castagnoli data"
  by (simp add: computeChecksum_def crc32_castagnoli_def reverse_foldl_byte word_reverse_ones)

text \<open>The check value of CRC-32C, the checksum of the nine ASCII digits \<open>"123456789"\<close>, is
  \<open>0xE3069283\<close>; 32 zero bytes and 32 bytes \<open>0xFF\<close>, two of the test patterns of RFC 3720,
  have the checksums \<open>0x8A9136AA\<close> and \<open>0x62A8AB43\<close>. The checksum of the source computes
  these values.\<close>

lemma funpow_8: "(f ^^ 8) x = f (f (f (f (f (f (f (f x)))))))"
  by (simp add: eval_nat_numeral)

lemma computeChecksum_check_value:
  "computeChecksum [0x31, 0x32, 0x33, 0x34, 0x35, 0x36, 0x37, 0x38, 0x39] = 0xE3069283"
  by (simp add: computeChecksum_def crc32c_byte_def funpow_8 crc32c_step_def)

lemma computeChecksum_zeros:
  "computeChecksum
     [0, 0, 0, 0, 0, 0, 0, 0, 0, 0, 0, 0, 0, 0, 0, 0, 0, 0, 0, 0, 0, 0, 0, 0, 0, 0, 0,
      0, 0, 0, 0, 0] = 0x8A9136AA"
  by (simp add: computeChecksum_def crc32c_byte_def funpow_8 crc32c_step_def)

lemma computeChecksum_ones:
  "computeChecksum
     [0xFF, 0xFF, 0xFF, 0xFF, 0xFF, 0xFF, 0xFF, 0xFF, 0xFF, 0xFF, 0xFF, 0xFF, 0xFF,
      0xFF, 0xFF, 0xFF, 0xFF, 0xFF, 0xFF, 0xFF, 0xFF, 0xFF, 0xFF, 0xFF, 0xFF, 0xFF,
      0xFF, 0xFF, 0xFF, 0xFF, 0xFF, 0xFF] = 0x62A8AB43"
  by (simp add: computeChecksum_def crc32c_byte_def funpow_8 crc32c_step_def)

lemma crc32_castagnoli_check_value:
  "crc32_castagnoli [0x31, 0x32, 0x33, 0x34, 0x35, 0x36, 0x37, 0x38, 0x39] = 0xE3069283"
  by (simp only: computeChecksum_castagnoli [symmetric] computeChecksum_check_value)

text \<open>The commit entry of the example below: its 38 bytes after the checksum, and their
  checksum.\<close>

lemma commitEntryBody_entry_7:
  "commitEntryBody entry_7 0xC0DE =
     [0, 0, 0, 0, 0, 0, 0, 7, 0, 0, 0, 0, 0, 0, 0, 100, 0, 0, 0, 5,
      0, 0, 0, 0, 0, 0, 0, 3, 0, 0, 0, 1, 0, 0, 0, 9, 0xC0, 0xDE]"
  by (simp add: commitEntryBody_def entry_7_def be64_def be32_def be16_def)

lemma computeChecksum_entry_7:
  "computeChecksum [0, 0, 0, 0, 0, 0, 0, 7, 0, 0, 0, 0, 0, 0, 0, 100, 0, 0, 0, 5,
      0, 0, 0, 0, 0, 0, 0, 3, 0, 0, 0, 1, 0, 0, 0, 9, 0xC0, 0xDE] = 0xAD7F1939"
  by (simp add: computeChecksum_def crc32c_byte_def funpow_8 crc32c_step_def)

lemma be32_entry_7: "be32 0xAD7F1939 = [0xAD, 0x7F, 0x19, 0x39]"
  by (simp add: be32_def)

text \<open>
  C8. \<open>CommitEntrySize\<close> is 42. For every commit entry \<open>e\<close> and every buffer of that size,
  \<open>putCommitEntry\<close> fills the buffer with the checksum, \<open>ts\<close>, \<open>hLogLastEntryOff\<close>,
  \<open>hLogLastEntryChecksum\<close>, \<open>totalPages\<close>, \<open>stalePages\<close>, \<open>indexedEntryCount\<close> and the magic,
  big-endian and in this order; the stored checksum, the first four bytes, is the
  CRC32-Castagnoli of the 38 bytes after it; and \<open>readCommitEntry\<close> of the buffer succeeds
  and returns the six fields of \<open>e\<close> (with the checksum it read).
\<close>

theorem commit_entry_roundtrip:
  assumes "length buf0 = CommitEntrySize"
  shows "CommitEntrySize = 42
       \<and> (\<exists>buf e'. putCommitEntry P e buf0 = Inr buf
            \<and> length buf = CommitEntrySize
            \<and> buf = be32 (Uint32 buf) @ be64 (Ts e) @ be64 (HLogLastEntryOff e)
                  @ be32 (HLogLastEntryChecksum e) @ be64 (TotalPages e) @ be32 (StalePages e)
                  @ be32 (IndexedEntryCount e) @ be16 (CommitMagic P)
            \<and> length (drop 4 buf) = 38
            \<and> Uint32 buf = crc32_castagnoli (drop 4 buf)
            \<and> take 4 buf = be32 (crc32_castagnoli (drop 4 buf))
            \<and> Uint32 buf = computeChecksum (drop 4 buf)
            \<and> readCommitEntry buf = Inr e'
            \<and> Ts e' = Ts e
            \<and> HLogLastEntryOff e' = HLogLastEntryOff e
            \<and> HLogLastEntryChecksum e' = HLogLastEntryChecksum e
            \<and> TotalPages e' = TotalPages e
            \<and> StalePages e' = StalePages e
            \<and> IndexedEntryCount e' = IndexedEntryCount e
            \<and> Checksum e' = crc32_castagnoli (drop 4 buf))"
proof -
  let ?body = "commitEntryBody e (CommitMagic P)"
  let ?buf = "be32 (computeChecksum ?body) @ ?body"
  have size: "CommitEntrySize = 42"
    by (simp add: CommitEntrySize_def CommitMagicSize_def)
  have put: "putCommitEntry P e buf0 = Inr ?buf"
    by (rule putCommitEntry_layout [OF assms])
  have len: "length ?buf = CommitEntrySize"
    by (simp add: size)
  have rest: "drop 4 ?buf = ?body"
    by simp
  have first: "take 4 ?buf = be32 (computeChecksum ?body)"
    by simp
  have cs: "Uint32 ?buf = computeChecksum ?body"
    by (rule Uint32_be32)
  have layout: "?buf = be32 (Uint32 ?buf) @ be64 (Ts e) @ be64 (HLogLastEntryOff e)
                  @ be32 (HLogLastEntryChecksum e) @ be64 (TotalPages e) @ be32 (StalePages e)
                  @ be32 (IndexedEntryCount e) @ be16 (CommitMagic P)"
    unfolding cs by (simp add: commitEntryBody_def)
  have rd: "readCommitEntry ?buf = Inr (e\<lparr>Checksum := computeChecksum ?body\<rparr>)"
    by (rule readCommitEntry_layout)
  have eq: "computeChecksum ?body = crc32_castagnoli ?body"
    by (rule computeChecksum_castagnoli)
  show ?thesis
    apply (rule conjI [OF size])
    apply (rule exI [of _ ?buf])
    apply (rule exI [of _ "e\<lparr>Checksum := computeChecksum ?body\<rparr>"])
    apply (intro conjI put len layout rd)
    apply (simp_all only: rest first cs length_commitEntryBody eq [symmetric])
    apply simp_all
    done
qed

theorem commit_entry_roundtrip_witness:
  "length (replicate 42 (0::byte)) = CommitEntrySize
   \<and> putCommitEntry ref_pkg entry_7 (replicate 42 0) = Inr entry_7_bytes
   \<and> take 4 entry_7_bytes = [0xAD, 0x7F, 0x19, 0x39]
   \<and> crc32_castagnoli (drop 4 entry_7_bytes) = 0xAD7F1939
   \<and> readCommitEntry entry_7_bytes = Inr (entry_7\<lparr>Checksum := 0xAD7F1939\<rparr>)"
proof -
  have h: "length (replicate 42 (0::byte)) = CommitEntrySize"
    by (simp add: CommitEntrySize_def CommitMagicSize_def)
  have magic: "CommitMagic ref_pkg = 0xC0DE"
    by (simp add: ref_pkg_def)
  from commit_entry_roundtrip [OF h, of ref_pkg entry_7]
  obtain buf e' where put: "putCommitEntry ref_pkg entry_7 (replicate 42 0) = Inr buf"
    and layout: "buf = be32 (Uint32 buf) @ be64 (Ts entry_7) @ be64 (HLogLastEntryOff entry_7)
                  @ be32 (HLogLastEntryChecksum entry_7) @ be64 (TotalPages entry_7)
                  @ be32 (StalePages entry_7) @ be32 (IndexedEntryCount entry_7)
                  @ be16 (CommitMagic ref_pkg)"
    and cs: "Uint32 buf = crc32_castagnoli (drop 4 buf)"
    and rd: "readCommitEntry buf = Inr e'"
    and fields: "Ts e' = Ts entry_7" "HLogLastEntryOff e' = HLogLastEntryOff entry_7"
      "HLogLastEntryChecksum e' = HLogLastEntryChecksum entry_7"
      "TotalPages e' = TotalPages entry_7" "StalePages e' = StalePages entry_7"
      "IndexedEntryCount e' = IndexedEntryCount entry_7"
    and csr: "Checksum e' = crc32_castagnoli (drop 4 buf)"
    by blast
  have body: "drop 4 buf = commitEntryBody entry_7 0xC0DE"
    by (subst layout) (simp add: commitEntryBody_def magic)
  have crc: "crc32_castagnoli (drop 4 buf) = 0xAD7F1939"
    unfolding body commitEntryBody_entry_7
    by (simp only: computeChecksum_castagnoli [symmetric] computeChecksum_entry_7)
  have buf: "buf = entry_7_bytes"
    apply (subst layout)
    apply (simp only: cs crc be32_entry_7)
    apply (simp add: entry_7_bytes_def entry_7_def magic be64_def be32_def be16_def)
    done
  have e': "e' = entry_7\<lparr>Checksum := 0xAD7F1939\<rparr>"
    using fields csr crc by (simp add: entry_7_def)
  show ?thesis
    using h put rd crc buf e' by (simp add: entry_7_bytes_def)
qed
section \<open>Insert changes neither the last snapshot nor the logs\<close>

lemma persisted_update [simp]:
  "persisted (t\<lparr>wb := w\<rparr>) = persisted t"
  "persisted (t\<lparr>nSplits := n\<rparr>) = persisted t"
  "persisted (t\<lparr>depth := d\<rparr>) = persisted t"
  "persisted (t\<lparr>headHistoryPageID := h\<rparr>) = persisted t"
  "persisted (t\<lparr>tailHistoryPageID := h\<rparr>) = persisted t"
  "persisted (t\<lparr>bufferedHistoryData := b\<rparr>) = persisted t"
  "persisted (t\<lparr>rootID := r\<rparr>) = persisted t"
  "persisted (t\<lparr>rootTs := ts\<rparr>) = persisted t"
  "persisted (t\<lparr>mutated := m\<rparr>) = persisted t"
  by (simp_all add: persisted_def)

lemma benign_simps [simp]:
  "benign (Inr x)"
  "benign (Inl e) \<longleftrightarrow> e \<noteq> ErrInvalidTimestamp"
  by (simp_all add: benign_def)

lemma wb_alloc_err: "wb_alloc w mp = Inl err \<Longrightarrow> err = ErrWriteBufferFull"
  by (auto simp: wb_alloc_def split: if_splits)

lemma wb_Get_err: "wb_Get w p = Inl err \<Longrightarrow> err = ErrInvalidPageID"
  by (auto simp: wb_Get_def split: if_splits mempage.splits)

lemma wb_GetHistoryPage_err: "wb_GetHistoryPage w p = Inl err \<Longrightarrow> err = ErrInvalidPageID"
  by (auto simp: wb_GetHistoryPage_def split: if_splits mempage.splits)

lemma hp_Append_err: "hp_Append hp he = Inl err \<Longrightarrow> err = ErrPageFull"
  by (auto simp: hp_Append_def Let_def split: if_splits)

lemma app_ReadAt_err: "app_ReadAt a n off = Inl err \<Longrightarrow> err \<noteq> ErrInvalidTimestamp"
  by (auto simp: app_ReadAt_def split: if_splits)

lemma readPage_err: "readPage P t dst p = Inl err \<Longrightarrow> err \<noteq> ErrInvalidTimestamp"
  by (auto simp: readPage_def readPageToBuf_def Let_def dest: app_ReadAt_err
      split: if_splits sum.splits option.splits)

lemma pgBuf_Get_err: "pgBuf_Get P t p = Inl err \<Longrightarrow> err \<noteq> ErrInvalidTimestamp"
  by (auto simp: pgBuf_Get_def dest: readPage_err split: sum.splits)

lemma GetOrDup_frame:
  "GetOrDup P t p = (r, t') \<Longrightarrow> persisted t' = persisted t \<and> benign r"
  by (auto simp: GetOrDup_def dupPage_def dest: wb_alloc_err wb_Get_err pgBuf_Get_err
      split: if_splits sum.splits prod.splits)

lemma getCurrHistoryPage_frame:
  "getCurrHistoryPage t = (r, t') \<Longrightarrow> persisted t' = persisted t \<and> benign r"
  by (auto simp: getCurrHistoryPage_def AllocHistoryPage_def dest: wb_alloc_err wb_GetHistoryPage_err
      split: if_splits sum.splits prod.splits)

lemma archiveEntry_frame:
  "archiveEntry t e = (r, t') \<Longrightarrow> persisted t' = persisted t \<and> benign r"
  apply (simp add: archiveEntry_def Let_def AllocHistoryPage_def split: prod.splits sum.splits if_splits)
  apply (auto dest!: getCurrHistoryPage_frame dest: wb_alloc_err wb_GetHistoryPage_err hp_Append_err)
  done


lemma InsertEntry_err: "InsertEntry P pg e = Inl err \<Longrightarrow> err = ErrPageFull"
  by (auto simp: InsertEntry_def split: if_splits option.splits)

lemma InsertKey_err: "InsertKey P pg k c = Inl err \<Longrightarrow> err = ErrPageFull"
  by (auto simp: InsertKey_def Let_def split: if_splits)

lemma Remove_err: "Remove pg k = Inl err \<Longrightarrow> err = ErrKeyNotFound"
  by (auto simp: Remove_def split: option.splits)

lemma SetPageID_err: "SetPageID pg i c = Inl err \<Longrightarrow> err = PanicOutOfRange"
  by (auto simp: SetPageID_def split: if_splits)

lemma Find_err: "Find pg k = Inl err \<Longrightarrow> err = PanicOutOfRange"
  by (auto simp: Find_def ChildPageAt_def Let_def split: if_splits sum.splits)

lemma sepKey_err: "sepKey w r = Inl err \<Longrightarrow> err \<noteq> ErrInvalidTimestamp"
  by (auto simp: sepKey_def firstKey_def keyAt_def dest: wb_Get_err
      split: option.splits sum.splits if_splits list.splits)

lemma tree_splitLeafPage_frame:
  "tree_splitLeafPage t p e = (r, t') \<Longrightarrow> persisted t' = persisted t \<and> benign r"
  apply (simp add: tree_splitLeafPage_def Let_def AllocLeafPage_def
      split: prod.splits sum.splits if_splits option.splits)
  apply (auto dest!: archiveEntry_frame dest: wb_alloc_err wb_Get_err Remove_err)
  done

lemma insertLeaf_frame:
  "insertLeaf P t p e d = (r, t') \<Longrightarrow> persisted t' = persisted t \<and> benign r"
  apply (simp add: insertLeaf_def Let_def split: prod.splits sum.splits if_splits option.splits)
  apply (auto dest!: archiveEntry_frame tree_splitLeafPage_frame dest: wb_Get_err InsertEntry_err)
  done

lemma insertEmpty_frame:
  "insertEmpty P t e = (r, t') \<Longrightarrow> persisted t' = persisted t \<and> benign r"
  by (auto simp: insertEmpty_def Let_def AllocLeafPage_def dest: wb_alloc_err InsertEntry_err
      split: prod.splits sum.splits)

lemma insertInnerPage_frame:
  "insertInnerPage P t p res = ((r, s, err), t')
     \<Longrightarrow> persisted t' = persisted t \<and> err \<noteq> Some ErrInvalidTimestamp"
  by (auto simp: insertInnerPage_def Let_def AllocInnerPage_def
      dest: wb_alloc_err wb_Get_err sepKey_err
      split: prod.splits sum.splits if_splits)

lemma insert_after_frame:
  "insert_after P t p idx res = (r, t') \<Longrightarrow> persisted t' = persisted t \<and> benign r"
  apply (simp add: insert_after_def split: prod.splits sum.splits if_splits option.splits)
  apply (auto dest!: insertInnerPage_frame dest: wb_Get_err SetPageID_err)
  done



lemma tree_insert_frame:
  assumes "tree_insert P t p e d = Some rt"
  shows "persisted (snd rt) = persisted t \<and> benign (fst rt)"
proof -
  have "(\<lambda>((((P, t), p), e), d) rt. persisted (snd rt) = persisted t \<and> benign (fst rt))
          ((((P, t), p), e), d) rt"
  proof (rule tree_insert.raw_induct
      [where Pa = "\<lambda>((((P, t), p), e), d) rt. persisted (snd rt) = persisted t \<and> benign (fst rt)",
        OF _ assms], goal_cases)
    case (1 f P t p e d rt)
    have IH: "persisted (snd y) = persisted t' \<and> benign (fst y)"
      if "f P' t' p' e' d' = Some y" for P' t' p' e' d' y
      using "1"(1) [OF that] by simp
    note eq = "1"(2)
    have "persisted (snd rt) = persisted t \<and> benign (fst rt)"
    proof (cases "p = PageNone")
      case True
      with eq have "insertEmpty P t e = (fst rt, snd rt)" by simp
      from insertEmpty_frame [OF this] show ?thesis by simp
    next
      case False
      obtain r1 t1 where g: "GetOrDup P t p = (r1, t1)" by force
      from GetOrDup_frame [OF g] have p1: "persisted t1 = persisted t" and b1: "benign r1"
        by simp_all
      show ?thesis
      proof (cases r1)
        case (Inl err)
        with eq False g b1 p1 show ?thesis by auto
      next
        case (Inr np)
        show ?thesis
        proof (cases "wb_Get (wb t1) np")
          case (Inl err)
          with eq False g Inr p1 wb_Get_err [OF Inl] show ?thesis by auto
        next
          case pg: (Inr pg)
          show ?thesis
          proof (cases "IsLeaf pg")
            case True
            with eq False g Inr pg have "insertLeaf P t1 np e d = (fst rt, snd rt)" by simp
            from insertLeaf_frame [OF this] p1 show ?thesis by simp
          next
            case leaf: False
            show ?thesis
            proof (cases "Find pg (Key e)")
              case (Inl err)
              with eq False g Inr pg leaf p1 Find_err [OF Inl] show ?thesis by auto
            next
              case fnd: (Inr ic)
              obtain idx child where ic: "ic = (idx, child)" by force
              from eq False g Inr pg leaf fnd ic
              obtain a b where rec: "f P t1 child e (d + 1) = Some (a, b)"
                and rest: "(case a of Inl err \<Rightarrow> Some (Inl err, b)
                            | Inr res \<Rightarrow> Some (insert_after P b np idx res)) = Some rt"
                by (auto simp: bind_eq_Some_conv)
              from IH [OF rec] have pb: "persisted b = persisted t1" and ba: "benign a"
                by simp_all
              show ?thesis
              proof (cases a)
                case (Inl err)
                with rest pb ba p1 show ?thesis by auto
              next
                case (Inr res)
                with rest have "insert_after P b np idx res = (fst rt, snd rt)" by simp
                from insert_after_frame [OF this] pb p1 show ?thesis by simp
              qed
            qed
          qed
        qed
      qed
    qed
    then show ?case by simp
  qed
  then show ?thesis by simp
qed

lemma Insert_after_frame:
  "Insert_after P t e res = (r, t') \<Longrightarrow> persisted t' = persisted t \<and> r \<noteq> Some ErrInvalidTimestamp"
  by (auto simp: Insert_after_def Let_def AllocInnerPage_def
      dest: wb_alloc_err sepKey_err InsertKey_err SetPageID_err
      split: prod.splits sum.splits if_splits option.splits)

lemma Insert_frame:
  assumes "Insert P t e = Some (r, t')"
  shows "persisted t' = persisted t
       \<and> (r = Some ErrInvalidTimestamp \<longleftrightarrow> eTs e = 0 \<or> eTs e < rootTs t)"
proof (cases "eTs e = 0 \<or> eTs e < rootTs t \<or> mtx_held t \<or> \<not> canAccommodateWrite t")
  case True
  with assms show ?thesis
    by (auto simp: Insert_def tree_Ts_def split: if_splits)
next
  case False
  with assms obtain a b where rec: "tree_insert P t (rootPageID t) e 0 = Some (a, b)"
    and rest: "(case a of Inl err \<Rightarrow> Some (Some err, b)
                | Inr res \<Rightarrow> Some (Insert_after P b e res)) = Some (r, t')"
    by (auto simp: Insert_def tree_Ts_def bind_eq_Some_conv)
  from tree_insert_frame [OF rec] have pb: "persisted b = persisted t" and ba: "benign a"
    by simp_all
  show ?thesis
  proof (cases a)
    case (Inl err)
    with rest pb ba False show ?thesis by auto
  next
    case (Inr res)
    with rest have "Insert_after P b e res = (r, t')" by simp
    from Insert_after_frame [OF this] pb False show ?thesis by simp
  qed
qed

lemma Inserts_frame:
  "Inserts P t es = Some (r, t') \<Longrightarrow> persisted t' = persisted t"
proof (induction es arbitrary: t)
  case Nil
  then show ?case by simp
next
  case (Cons e es)
  from Cons.prems obtain r1 t1 where i: "Insert P t e = Some (r1, t1)"
    by (auto split: option.splits)
  from Insert_frame [OF i] have p: "persisted t1 = persisted t" by simp
  show ?case
  proof (cases r1)
    case None
    with Cons.prems i have "Inserts P t1 es = Some (r, t')" by simp
    from Cons.IH [OF this] p show ?thesis by simp
  next
    case (Some err)
    with Cons.prems i p show ?thesis by simp
  qed
qed

section \<open>The three inserts of the history scenario\<close>

lemma memPageID_small:
  "memPageID 0 = 0x8000000000000000" "memPageID 1 = 0x8000000000000001"
  "memPageID 2 = 0x8000000000000002" "memPageID (Suc 0) = 0x8000000000000001"
  by (simp_all add: memPageID_def)

lemma isMemPage_small [simp]:
  "isMemPage 0x8000000000000000" "isMemPage 0x8000000000000001" "isMemPage 0x8000000000000002"
  by (simp_all add: isMemPage_def PageNone_def)

lemma memIndex_small [simp]:
  "memIndex 0x8000000000000000 = 0" "memIndex 0x8000000000000001 = 1"
  "memIndex 0x8000000000000002 = 2"
  by (simp_all add: memIndex_def)

lemma PageNone_small [simp]:
  "PageNone \<noteq> 0x8000000000000000" "PageNone \<noteq> 0x8000000000000001"
  "PageNone \<noteq> 0x8000000000000002"
  "0x8000000000000000 \<noteq> PageNone" "0x8000000000000001 \<noteq> PageNone"
  "0x8000000000000002 \<noteq> PageNone"
  by (simp_all add: PageNone_def)

lemma Insert_a1: "Insert ref_pkg emptyTree (entry_a 0x31 1) = Some (None, tree_a1)"
  apply (simp add: Insert_def tree_Ts_def canAccommodateWrite_def wb_Grow_def emptyTree_def entry_a_def
     rootPageID_def)
  apply (subst tree_insert.simps)
  apply (simp add: insertEmpty_def AllocLeafPage_def wb_alloc_def memPageID_small)
  apply (simp add: InsertEntry_def ref_pkg_def ref_leafFits_def ref_pageHead_def ref_pageTail_def ref_items_def ref_header_def newLeafPage_def
      ref_encodeEntry_def PageSize_def wb_store_def SetAsRoot_def)
  apply (simp add: Insert_after_def tree_a1_def emptyTree_def leaf_a_def memPageID_small)
  done


lemma Insert_a2: "Insert ref_pkg tree_a1 (entry_a 0x32 2) = Some (None, tree_a2)"
  apply (simp add: Insert_def tree_Ts_def canAccommodateWrite_def wb_Grow_def tree_a1_def emptyTree_def
     entry_a_def rootPageID_def memPageID_small)
  apply (subst tree_insert.simps)
  apply (simp add: GetOrDup_def wb_Get_def leaf_a_def insertLeaf_def)
  apply (simp add: InsertEntry_def ref_pkg_def ref_leafFits_def ref_pageHead_def ref_pageTail_def ref_items_def ref_header_def
      ref_encodeEntry_def PageSize_def wb_store_def)
  apply (simp add: archiveEntry_def getCurrHistoryPage_def AllocHistoryPage_def wb_alloc_def
      memPageID_small wb_GetHistoryPage_def hp_Append_def newHistoryPage_def Let_def
      encodeHistoryEntry_def PageSize_def wb_store_def wb_Get_def UpdateHistory_def)
  apply (simp add: Insert_after_def tree_a2_def emptyTree_def leaf_a_def memPageID_small
      encodeHistoryEntry_def)
  done

lemma Insert_a3: "Insert ref_pkg tree_a2 (entry_a 0x33 3) = Some (None, tree_a3)"
  apply (simp add: Insert_def tree_Ts_def canAccommodateWrite_def wb_Grow_def tree_a2_def emptyTree_def
     entry_a_def rootPageID_def memPageID_small)
  apply (subst tree_insert.simps)
  apply (simp add: GetOrDup_def wb_Get_def leaf_a_def insertLeaf_def)
  apply (simp add: InsertEntry_def ref_pkg_def ref_leafFits_def ref_pageHead_def ref_pageTail_def ref_items_def ref_header_def
      ref_encodeEntry_def PageSize_def wb_store_def)
  apply (simp add: archiveEntry_def getCurrHistoryPage_def AllocHistoryPage_def wb_alloc_def
      memPageID_small wb_GetHistoryPage_def hp_Append_def newHistoryPage_def Let_def
      encodeHistoryEntry_def PageSize_def wb_store_def wb_Get_def UpdateHistory_def)
  apply (simp add: Insert_after_def tree_a3_def emptyTree_def leaf_a_def memPageID_small
      encodeHistoryEntry_def)
  done

lemma Inserts_a: "Inserts ref_pkg emptyTree [entry_a 0x31 1, entry_a 0x32 2, entry_a 0x33 3] = Some (None, tree_a3)"
  by (simp add: Insert_a1 Insert_a2 Insert_a3)

section \<open>Reads before the first flush\<close>

lemma snapshot_none:
  "lastSnapshotID t = PageNone \<Longrightarrow> snapshot t = (Inl ErrNoSnapshotAvailable, t)"
  by (simp add: snapshot_def lastSnapshotRootID_def Let_def)

lemma GetBetween_without_snapshot:
  "lastSnapshotID t = PageNone
     \<Longrightarrow> GetBetween P t k initialTs finalTs = (Inl ErrNoSnapshotAvailable, t)"
  using snapshot_none [of t] by (simp add: GetBetween_def ReadSnapshot_def)

lemma findLastValidPage_empty:
  "app_data (treeApp t) = [] \<Longrightarrow> \<not> app_closed (treeApp t)
     \<Longrightarrow> findLastValidPage P t = Inl ErrNoValidPageFound"
  by (simp add: findLastValidPage_def app_Size_def CommitEntrySize_def CommitMagicSize_def)

lemma Open_empty_dir:
  "Open ref_pkg ''idx'' (dir_opts [] empty_files)
     = (Inr emptyTree, \<lparr>removed = [], warnings = []\<rparr>)"
  apply (simp add: Open_def ref_pkg_def dir_opts_def empty_files_def recoverLatestValidTreeSnapshot_def)
  apply (simp add: OpenWith_def recoverRootPage_def findLastValidPage_empty emptyLog_def
      app_SetOffset_def emptyTree_def)
  done

lemma lastSnapshotID_emptyTree: "lastSnapshotID emptyTree = PageNone"
  by (simp add: emptyTree_def)

text \<open>
  C2, as the claim states it, fails. \<^verbatim>\<open>Open\<close> of an empty directory returns the empty
  tree, the three inserts of \<open>"a"\<close> succeed without a flush, and then neither does
  \<open>GetBetween "a" 1 2\<close> return \<open>("2", 2, 2)\<close> nor does \<open>GetBetween "a" 4 5\<close> fail with
  \<open>ErrKeyNotFound\<close>.
\<close>

theorem GetBetween_unflushed_counterexample:
  "fst (Open ref_pkg ''idx'' (dir_opts [] empty_files)) = Inr emptyTree
   \<and> Inserts ref_pkg emptyTree [entry_a 0x31 1, entry_a 0x32 2, entry_a 0x33 3]
       = Some (None, tree_a3)
   \<and> fst (GetBetween ref_pkg tree_a3 [0x61] 1 2) \<noteq> Inr ([0x32], 2, 2)
   \<and> fst (GetBetween ref_pkg tree_a3 [0x61] 4 5) \<noteq> Inl ErrKeyNotFound"
proof -
  have "lastSnapshotID tree_a3 = PageNone"
    by (simp add: tree_a3_def emptyTree_def)
  then show ?thesis
    by (simp add: Open_empty_dir Insert_a1 Insert_a2 Insert_a3 GetBetween_without_snapshot)
qed

text \<open>
  C2, amended. On a tree without a persisted snapshot (\<open>lastSnapshotID = PageNone\<close>, as
  on a freshly opened empty tree), after any run of successful or failed inserts with
  no flush, every \<open>GetBetween\<close> fails with \<open>ErrNoSnapshotAvailable\<close> and leaves the tree
  as it is: \<open>GetBetween\<close> reads the last persisted snapshot, and an insert does not
  make one.
\<close>

theorem GetBetween_before_first_flush:
  assumes "lastSnapshotID t = PageNone"
    and "Inserts P t es = Some (r, t')"
  shows "GetBetween P t' k initialTs finalTs = (Inl ErrNoSnapshotAvailable, t')"
proof -
  from Inserts_frame [OF assms(2)] assms(1) have "lastSnapshotID t' = PageNone"
    by (simp add: persisted_def)
  then show ?thesis by (rule GetBetween_without_snapshot)
qed

theorem GetBetween_before_first_flush_witness:
  "lastSnapshotID emptyTree = PageNone
   \<and> Inserts ref_pkg emptyTree [entry_a 0x31 1, entry_a 0x32 2, entry_a 0x33 3]
       = Some (None, tree_a3)
   \<and> GetBetween ref_pkg tree_a3 [0x61] 1 2 = (Inl ErrNoSnapshotAvailable, tree_a3)
   \<and> GetBetween ref_pkg tree_a3 [0x61] 4 5 = (Inl ErrNoSnapshotAvailable, tree_a3)"
  using GetBetween_before_first_flush [OF lastSnapshotID_emptyTree Inserts_a, of "[0x61]" 1 2]
    GetBetween_before_first_flush [OF lastSnapshotID_emptyTree Inserts_a, of "[0x61]" 4 5]
  by (simp add: lastSnapshotID_emptyTree Insert_a1 Insert_a2 Insert_a3)

text \<open>
  C9. On a tree whose last persisted snapshot root is \<open>PageNone\<close>, \<open>History\<close> returns
  \<open>ErrKeyNotFound\<close> for every key, whatever the in-memory root holds, while
  \<open>ReadSnapshot\<close> returns \<open>ErrNoSnapshotAvailable\<close>; neither changes the tree.
\<close>

theorem History_without_snapshot:
  assumes "lastSnapshotID t = PageNone"
  shows "History P t k offset descOrder limit = (Inl ErrKeyNotFound, t)
       \<and> ReadSnapshot t = (Inl ErrNoSnapshotAvailable, t)"
  using snapshot_none [OF assms] by (simp add: History_def ReadSnapshot_def)

theorem History_without_snapshot_witness:
  "lastSnapshotID tree_a1 = PageNone
   \<and> Insert ref_pkg emptyTree (entry_a 0x31 1) = Some (None, tree_a1)
   \<and> History ref_pkg tree_a1 [0x61] 0 False 10 = (Inl ErrKeyNotFound, tree_a1)
   \<and> ReadSnapshot tree_a1 = (Inl ErrNoSnapshotAvailable, tree_a1)"
proof -
  have h: "lastSnapshotID tree_a1 = PageNone"
    by (simp add: tree_a1_def emptyTree_def)
  from History_without_snapshot [OF h, of ref_pkg "[0x61]" 0 False 10] h Insert_a1
  show ?thesis by simp
qed

section \<open>Timestamps\<close>

text \<open>
  C6, as the claim states it, fails: on the empty tree, where \<open>rootTs\<close> is 0, an entry
  with \<open>ts = 0\<close> and a one-byte value satisfies \<open>ts \<ge> rootTs\<close> and fits \<open>MaxEntrySize\<close>,
  and \<open>Insert\<close> rejects it with \<open>ErrInvalidTimestamp\<close>.
\<close>

theorem Insert_zero_ts_counterexample:
  "rootTs emptyTree \<le> eTs (entry_a 0x31 0)
   \<and> length (Value (entry_a 0x31 0)) \<le> MaxEntrySize
   \<and> Insert ref_pkg emptyTree (entry_a 0x31 0) = Some (Some ErrInvalidTimestamp, emptyTree)"
  by (simp add: Insert_def entry_a_def emptyTree_def MaxEntrySize_def)

text \<open>
  C6, amended. \<open>Insert\<close> fails with \<open>ErrInvalidTimestamp\<close> exactly when \<open>ts = 0\<close> or
  \<open>ts < rootTs\<close>: in that case it returns the error and leaves the tree as it is; for
  every entry with \<open>ts > 0\<close> and \<open>ts \<ge> rootTs\<close> (whatever its value) \<open>Insert\<close> does not
  return \<open>ErrInvalidTimestamp\<close>.
\<close>

theorem Insert_InvalidTimestamp_iff:
  "(eTs e = 0 \<or> eTs e < rootTs t \<longrightarrow> Insert P t e = Some (Some ErrInvalidTimestamp, t))
   \<and> (0 < eTs e \<and> rootTs t \<le> eTs e \<longrightarrow> (\<forall>t'. Insert P t e \<noteq> Some (Some ErrInvalidTimestamp, t')))"
proof (intro conjI impI allI)
  assume "eTs e = 0 \<or> eTs e < rootTs t"
  then show "Insert P t e = Some (Some ErrInvalidTimestamp, t)"
    by (auto simp: Insert_def tree_Ts_def)
next
  fix t'
  assume a: "0 < eTs e \<and> rootTs t \<le> eTs e"
  show "Insert P t e \<noteq> Some (Some ErrInvalidTimestamp, t')"
  proof
    assume "Insert P t e = Some (Some ErrInvalidTimestamp, t')"
    from Insert_frame [OF this] have "eTs e = 0 \<or> eTs e < rootTs t" by simp
    with a show False by auto
  qed
qed

theorem Insert_InvalidTimestamp_iff_witness:
  "(0::u64) < eTs (entry_a 0x31 1) \<and> rootTs emptyTree \<le> eTs (entry_a 0x31 1)
   \<and> Insert ref_pkg emptyTree (entry_a 0x31 1) = Some (None, tree_a1)
   \<and> Insert ref_pkg emptyTree (entry_a 0x31 1) \<noteq> Some (Some ErrInvalidTimestamp, tree_a1)
   \<and> eTs (entry_a 0x32 2) < rootTs tree_a3
   \<and> Insert ref_pkg tree_a3 (entry_a 0x32 2) = Some (Some ErrInvalidTimestamp, tree_a3)"
proof -
  have a: "(0::u64) < eTs (entry_a 0x31 1) \<and> rootTs emptyTree \<le> eTs (entry_a 0x31 1)"
    by (simp add: entry_a_def emptyTree_def)
  have b: "eTs (entry_a 0x32 2) < rootTs tree_a3"
    by (simp add: entry_a_def tree_a3_def emptyTree_def)
  from Insert_InvalidTimestamp_iff [of "entry_a 0x31 1" emptyTree ref_pkg]
    Insert_InvalidTimestamp_iff [of "entry_a 0x32 2" tree_a3 ref_pkg] a b Insert_a1
  show ?thesis by simp
qed

section \<open>Advance\<close>

text \<open>
  C7. On an unlocked tree, \<open>Advance ts entryCount\<close> returns \<open>ErrInvalidTimestamp\<close> and
  changes nothing when \<open>ts < rootTs\<close>; returns nil and changes nothing when
  \<open>ts = rootTs\<close>; and when \<open>ts > rootTs\<close> it returns nil, stores \<open>ts\<close> in \<open>rootTs\<close> and
  \<open>entryCount\<close> in \<open>indexedEntryCount\<close>, and changes no other field (so \<open>rootID\<close> and
  \<open>mutated\<close> are as before).
\<close>

theorem Advance_cases:
  assumes "\<not> mtx_held t"
  shows "(ts < rootTs t \<longrightarrow> Advance t ts entryCount = (Some ErrInvalidTimestamp, t))
       \<and> (ts = rootTs t \<longrightarrow> Advance t ts entryCount = (None, t))
       \<and> (rootTs t < ts \<longrightarrow>
            Advance t ts entryCount = (None, t\<lparr>rootTs := ts, indexedEntryCount := entryCount\<rparr>)
          \<and> rootID (snd (Advance t ts entryCount)) = rootID t
          \<and> mutated (snd (Advance t ts entryCount)) = mutated t
          \<and> rootTs (snd (Advance t ts entryCount)) = ts
          \<and> indexedEntryCount (snd (Advance t ts entryCount)) = entryCount)"
  using assms by (auto simp: Advance_def tree_Ts_def Let_def)

theorem Advance_cases_witness:
  "\<not> mtx_held tree_a3 \<and> (2::u64) < rootTs tree_a3 \<and> rootTs tree_a3 < (7::u64)
   \<and> Advance tree_a3 2 5 = (Some ErrInvalidTimestamp, tree_a3)
   \<and> Advance tree_a3 3 5 = (None, tree_a3)
   \<and> Advance tree_a3 7 5 = (None, tree_a3\<lparr>rootTs := 7, indexedEntryCount := 5\<rparr>)"
proof -
  have a: "\<not> mtx_held tree_a3" and b: "rootTs tree_a3 = 3"
    by (simp_all add: tree_a3_def emptyTree_def)
  from Advance_cases [OF a, of 2 5] Advance_cases [OF a, of 3 5] Advance_cases [OF a, of 7 5] a b
  show ?thesis by simp
qed

section \<open>Snapshots at a timestamp beyond the root\<close>

text \<open>
  C10. For every \<open>ts\<close> greater than the root timestamp, \<open>SnapshotAtTs\<close> and
  \<open>SnapshotMustIncludeTs\<close> return \<open>ErrStaleRootTimestamp\<close> and the tree is exactly as
  before: nothing was appended to the tree log or to the history log, and \<open>rootID\<close>,
  \<open>lastSnapshotID\<close>, \<open>lastSnapshotTs\<close> and \<open>mutated\<close> are unchanged.
\<close>

theorem SnapshotAtTs_stale_root:
  assumes "rootTs t < ts"
  shows "SnapshotAtTs P t ts = Some (Inl ErrStaleRootTimestamp, t)
       \<and> SnapshotMustIncludeTs P t ts = Some (Inl ErrStaleRootTimestamp, t)"
  using assms
  by (simp add: SnapshotAtTs_def SnapshotMustIncludeTs_def ensureLatestSnapshotContainsTs_def
      tree_Ts_def Let_def)

theorem SnapshotAtTs_stale_root_witness:
  "rootTs tree_a3 < (4::u64) \<and> mutated tree_a3 \<and> lastSnapshotID tree_a3 = PageNone
   \<and> SnapshotAtTs ref_pkg tree_a3 4 = Some (Inl ErrStaleRootTimestamp, tree_a3)
   \<and> SnapshotMustIncludeTs ref_pkg tree_a3 4 = Some (Inl ErrStaleRootTimestamp, tree_a3)"
proof -
  have a: "rootTs tree_a3 < (4::u64)"
    and b: "mutated tree_a3 \<and> lastSnapshotID tree_a3 = PageNone"
    by (simp_all add: tree_a3_def emptyTree_def)
  from SnapshotAtTs_stale_root [OF a, of ref_pkg] a b show ?thesis by simp
qed

section \<open>Appending a page\<close>


lemma be64_OffsetNone: "be64 OffsetNone = [0xFF, 0xFF, 0xFF, 0xFF, 0xFF, 0xFF, 0xFF, 0xFF]"
  unfolding be64_def OffsetNone_def by code_simp

lemma ref_pageHead_leaf_a:
  "pageHead ref_pkg (leaf_a 0x31 1 OffsetNone 0)
     = [1, 1, 0, 1] @ replicate 12 0 @ [0x0F, 0xE2]"
  by (simp add: ref_pkg_def ref_pageHead_def ref_header_def ref_flags_def ref_items_def leaf_a_def
      ref_encodeEntry_def PageSize_def be16_def)

lemma ref_pageTail_leaf_a:
  "pageTail ref_pkg (leaf_a 0x31 1 OffsetNone 0)
     = [0, 1, 0x61, 0, 1, 0x31, 0, 0, 0, 0, 0, 0, 0, 1,
        0xFF, 0xFF, 0xFF, 0xFF, 0xFF, 0xFF, 0xFF, 0xFF, 0, 0, 0, 0, 0, 0, 0, 0]"
  apply (simp add: ref_pkg_def ref_pageTail_def ref_items_def leaf_a_def ref_encodeEntry_def
      be64_OffsetNone)
  apply (simp add: be16_def be64_def)
  done



text \<open>The instance reads back the page it wrote.\<close>

lemma ref_PageFromBytes_leaf_a:
  "PageFromBytes ref_pkg (pageImage ref_pkg (leaf_a 0x31 1 OffsetNone 0))
     = leaf_a 0x31 1 OffsetNone 0"
  apply (simp only: pageImage_def ref_pageHead_leaf_a ref_pageTail_leaf_a)
  apply (simp add: ref_pkg_def PageSize_def)
  apply (simp add: ref_PageFromBytes_def Let_def)
  apply (simp add: Uint16_def ref_item_def nth_append)
  apply (simp add: ref_decodeEntry_def Uint16_def Uint64_def leaf_a_def OffsetNone_def)
  done
section \<open>Recovery of snapshots in Open\<close>

lemma ParseUint_1: "ParseUint ''1'' = Some 1" "ParseUint ''2'' = Some 2" "ParseUint ''5'' = Some 5"
  by (simp_all add: ParseUint_def isDigit_def)

lemma Split_tree: "Split ''tree_1'' (CHR ''_'') = [''tree'', ''1'']"
  "Split ''tree_2'' (CHR ''_'') = [''tree'', ''2'']"
  "Split ''tree_5'' (CHR ''_'') = [''tree'', ''5'']"
  by simp_all

lemma Open_recoverSnap_fail:
  "Open_recoverSnap P path0 opts h snapPath snapTs (None, rm) = (Some err, t, rm') \<Longrightarrow> t = None"
  by (auto simp: Open_recoverSnap_def split: sum.splits)

lemma recoverSnaps_Open_none:
  "recoverSnaps entries (Open_recoverSnap P path0 opts h) n (None, rm) = (n', (t, rm'))
     \<Longrightarrow> 0 < n' \<Longrightarrow> t = None"
proof (induction entries arbitrary: n rm)
  case Nil
  then show ?case by simp
next
  case (Cons e entries)
  show ?case
  proof (cases "\<not> IsDir e \<or> \<not> HasPrefix (Name e) TreeLogFileName
      \<or> length (Split (Name e) (CHR ''_'')) \<noteq> 2
      \<or> ParseUint (Split (Name e) (CHR ''_'') ! 1) = None
      \<or> Split (Name e) (CHR ''_'') ! 0 \<noteq> TreeLogFileName")
    case True
    with Cons.prems have "recoverSnaps entries (Open_recoverSnap P path0 opts h) n (None, rm)
        = (n', (t, rm'))"
      by (auto simp: Let_def split: if_splits option.splits)
    from Cons.IH [OF this Cons.prems(2)] show ?thesis .
  next
    case False
    then obtain snapTs where ts: "ParseUint (Split (Name e) (CHR ''_'') ! 1) = Some snapTs"
      by auto
    obtain r t1 rm1 where c: "Open_recoverSnap P path0 opts h (Name e) snapTs (None, rm) = (r, t1, rm1)"
      by (metis prod_cases3)
    show ?thesis
    proof (cases r)
      case None
      with Cons.prems False ts c show ?thesis by (simp add: Let_def)
    next
      case (Some err)
      with c have "t1 = None" by (auto dest: Open_recoverSnap_fail)
      with Cons.prems False ts c Some
      have "recoverSnaps entries (Open_recoverSnap P path0 opts h) (n + 1) (None, rm1)
          = (n', (t, rm'))"
        by (simp add: Let_def)
      from Cons.IH [OF this Cons.prems(2)] show ?thesis .
    qed
  qed
qed

text \<open>The same for every input: the warning is only reached with \<^verbatim>\<open>t\<close> nil, where
  \<^verbatim>\<open>t.Path()\<close> panics, so \<^verbatim>\<open>Open\<close> never logs it.\<close>

lemma Open_never_warns:
  "warnings (snd (Open P path0 opts)) = []"
proof -
  have "warnings (snd (Open P path0 opts)) = []"
    if v: "Validate P opts = None" and h: "opt_appFactory opts path0 HistoryLogFileName = Inr ha"
      and r: "recoverSnaps entries (Open_recoverSnap P path0 opts ha) 0 (None, []) = (n, (t, rm))"
      and d: "opt_readDir opts path0 = Inr entries"
    for ha entries n t rm
  proof (cases t)
    case (Some t')
    with v h r d show ?thesis
      by (simp add: Open_def recoverLatestValidTreeSnapshot_def)
  next
    case None
    show ?thesis
    proof (cases "0 < n")
      case True
      with v h r d None show ?thesis
        by (simp add: Open_def recoverLatestValidTreeSnapshot_def tree_Path_def)
    next
      case False
      with v h r d None show ?thesis
        by (simp add: Open_def recoverLatestValidTreeSnapshot_def split: sum.splits)
    qed
  qed
  then show ?thesis
    apply (cases "Validate P opts")
     apply (cases "opt_appFactory opts path0 HistoryLogFileName")
      apply (simp add: Open_def)
     apply (cases "opt_readDir opts path0")
      apply (simp add: Open_def recoverLatestValidTreeSnapshot_def)
     apply (metis prod_cases3)
    apply (simp add: Open_def)
    done
qed


text \<open>And whenever at least one recovery was attempted and all attempts failed, \<^verbatim>\<open>Open\<close>
  panics.\<close>

lemma Open_panics_after_failed_attempts:
  assumes "Validate P opts = None"
    and "opt_appFactory opts path0 HistoryLogFileName = Inr ha"
    and "opt_readDir opts path0 = Inr entries"
    and "recoverSnaps entries (Open_recoverSnap P path0 opts ha) 0 (None, []) = (n, (t, rm))"
    and "0 < n"
  shows "Open P path0 opts = (Inl PanicNilDereference, \<lparr>removed = rm, warnings = []\<rparr>)"
proof -
  from recoverSnaps_Open_none [OF assms(4) assms(5)] have "t = None" .
  with assms show ?thesis
    by (simp add: Open_def recoverLatestValidTreeSnapshot_def tree_Path_def)
qed

text \<open>
  C5: the code does not do what the claim says. \<^verbatim>\<open>recoverLatestValidTreeSnapshot\<close> takes
  the directory entries in the order of the listing and stops at the first snapshot
  that recovers. For the listing \<open>tree_1\<close>, \<open>tree_2\<close> (the order of \<^verbatim>\<open>os.ReadDir\<close>, by file
  name) with both snapshots recoverable, the only snapshot tried, and so the one
  recovered, is \<open>tree_1\<close> with \<open>ts = 1\<close>, not the one with the greatest \<open>ts\<close>.
\<close>

theorem recover_takes_first_listed:
  "recoverLatestValidTreeSnapshot ''idx''
      list_1_2 record_tried []
    = (Inr 0, [(''tree_1'', 1)])"
  by (simp add: recoverLatestValidTreeSnapshot_def list_1_2_def record_tried_def HasPrefix_def
      TreeLogFileName_def Split_tree ParseUint_1)

text \<open>
  C3: the code does not do what the claim says. The directory holds one snapshot,
  \<open>tree_5\<close>, and its recovery fails. \<^verbatim>\<open>Open\<close> then evaluates \<^verbatim>\<open>t.Path()\<close> for the warning
  while \<^verbatim>\<open>t\<close> is nil: it panics with a nil dereference, returns no tree and logs
  no warning.
\<close>

theorem Open_failed_recovery_panics:
  "Open ref_pkg ''idx''
      (dir_opts [\<lparr>Name = ''tree_5'', IsDir = True\<rparr>] tree_5_fails)
    = (Inl PanicNilDereference, \<lparr>removed = [], warnings = []\<rparr>)"
  apply (simp add: Open_def ref_pkg_def dir_opts_def tree_5_fails_def
      recoverLatestValidTreeSnapshot_def HistoryLogFileName_def)
  apply (simp add: HasPrefix_def TreeLogFileName_def Split_tree ParseUint_1 Open_recoverSnap_def tree_Path_def)
  done

end
